theory Spec2Isabelle
  imports Complex_Main "HOL-Library.Sublist" "HOL-Library.Multiset"
begin

section \<open>Python values shared by the models\<close>

text \<open>
  Exceptions are values. Only subclasses of Python's \<open>Exception\<close> are modelled: they are
  what the \<open>except Exception\<close> handlers of the sources catch.
\<close>

datatype py_exception =
    AttributeError
  | TypeError
  | ValueError
  | OverflowError
  | InvalidOperation
  | DivisionByZero
  | KeyError
  | DatabaseError
  | OtherException

text \<open>
  A dictionary entry read with \<open>dict.get\<close>: the key is missing, the key holds \<open>None\<close>,
  or the key holds a value.
\<close>

datatype 'a dictval = Missing | PyNone | Val 'a

text \<open>
  \<open>datetime.date\<close>: the three attributes; comparison is the lexicographic order of
  \<open>(year, month, day)\<close>.
\<close>

record date =
  year :: nat
  month :: nat
  day :: nat

definition mk_date :: "nat \<Rightarrow> nat \<Rightarrow> nat \<Rightarrow> date" where
  "mk_date y m d = \<lparr>year = y, month = m, day = d\<rparr>"

definition date_lt :: "date \<Rightarrow> date \<Rightarrow> bool" where
  "date_lt a b \<longleftrightarrow>
     year a < year b \<or> (year a = year b \<and> (month a < month b \<or> (month a = month b \<and> day a < day b)))"

text \<open>\<open>sep.join(xs)\<close> on strings.\<close>

fun join :: "string \<Rightarrow> string list \<Rightarrow> string" where
  "join sep [] = []"
| "join sep [x] = x"
| "join sep (x # y # ys) = x @ sep @ join sep (y # ys)"

text \<open>
  \<open>str.strip()\<close> removes the characters for which \<open>str.isspace\<close> holds from both ends.
  Strings are lists of 8-bit characters read as code points 0..255; the white space among
  them is 9..13, 28..32, 133 and 160.
\<close>

definition py_isspace :: "char \<Rightarrow> bool" where
  "py_isspace c \<longleftrightarrow>
     (let n = (of_char c :: nat) in (9 \<le> n \<and> n \<le> 13) \<or> (28 \<le> n \<and> n \<le> 32) \<or> n = 133 \<or> n = 160)"

definition strip :: "string \<Rightarrow> string" where
  "strip s = rev (dropWhile py_isspace (rev (dropWhile py_isspace s)))"

definition nl :: string where
  "nl = [CHR 0x0A]"

section \<open>advanced_search_system.py: DatabaseQueryBuilder\<close>

subsection \<open>build_search_query\<close>

text \<open>A bound parameter of the query: the dates are \<open>date\<close> objects, the rest strings.\<close>

datatype param = PDate date | PStr string

text \<open>The filter dictionary, one entry per key the function reads.\<close>

record filters =
  start_date :: "date dictval"
  end_date :: "date dictval"
  branches :: "string list dictval"
  document_types :: "string list dictval"
  products :: "string list dictval"
  document_number :: "string dictval"

definition base_query :: string where
  "base_query =
     nl @ ''            SELECT VentaID, Articulo, PuntoVenta, Fecha, TipoDocumento, '' @
     nl @ ''                   NumeroDocumento, Unidad, KilosTotales, ValorUnitario, '' @
     nl @ ''                   Descuento, Neto, IVA, Total, NetoPorKG, Pago, '' @
     nl @ ''                   NumeroComprobante, MedioPago'' @
     nl @ ''            FROM VentasDiarias'' @
     nl @ ''        ''"

text \<open>\<open>', '.join(['%s'] * n)\<close>\<close>

definition placeholders :: "nat \<Rightarrow> string" where
  "placeholders n = join '', '' (replicate n ''%s'')"

text \<open>
  \<open>filters.get(key, [])\<close> followed by the test \<open>xs and len(xs) > 0\<close>: the list when
  the test passes, the empty list when the key is missing, holds \<open>None\<close> or holds \<open>[]\<close>.
\<close>

definition get_list :: "string list dictval \<Rightarrow> string list" where
  "get_list v = (case v of Missing \<Rightarrow> [] | PyNone \<Rightarrow> [] | Val xs \<Rightarrow> xs)"

text \<open>
  The date condition. \<open>filters.get('start_date')\<close> is \<open>None\<close> for a missing key, and
  a \<open>date\<close> object is always true.
\<close>

definition date_condition :: "filters \<Rightarrow> string list \<times> param list" where
  "date_condition f =
     (case (start_date f, end_date f) of
        (Val s, Val e) \<Rightarrow>
          if s = e then ([''Fecha = %s''], [PDate s])
          else ([''Fecha BETWEEN %s AND %s''], [PDate s, PDate e])
      | _ \<Rightarrow> ([], []))"

definition branch_condition :: "filters \<Rightarrow> string list \<times> param list" where
  "branch_condition f =
     (let bs = get_list (branches f) in
      if bs \<noteq> [] \<and> length bs > 0
      then ([''PuntoVenta IN ('' @ placeholders (length bs) @ '')''], map PStr bs)
      else ([], []))"

definition doc_type_condition :: "filters \<Rightarrow> string list \<times> param list" where
  "doc_type_condition f =
     (let ts = get_list (document_types f) in
      if ts \<noteq> [] \<and> length ts > 0 \<and> ''Todo'' \<notin> set ts
      then ([''TipoDocumento IN ('' @ placeholders (length ts) @ '')''], map PStr ts)
      else ([], []))"

definition product_condition :: "filters \<Rightarrow> string list \<times> param list" where
  "product_condition f =
     (let ps = get_list (products f) in
      if ps \<noteq> [] \<and> length ps > 0 \<and> ''Todo'' \<notin> set ps
      then ([''Articulo IN ('' @ placeholders (length ps) @ '')''], map PStr ps)
      else ([], []))"

text \<open>
  \<open>filters.get('document_number', '').strip()\<close>: a key that holds \<open>None\<close> raises
  \<open>AttributeError\<close>.
\<close>

definition doc_number_condition :: "filters \<Rightarrow> py_exception + string list \<times> param list" where
  "doc_number_condition f =
     (case document_number f of
        PyNone \<Rightarrow> Inl AttributeError
      | Missing \<Rightarrow> Inr ([], [])
      | Val s \<Rightarrow>
          (let doc_number = strip s in
           if doc_number \<noteq> [] then Inr ([''NumeroDocumento = %s''], [PStr doc_number])
           else Inr ([], [])))"

text \<open>The conditions and parameters in the order the function appends them.\<close>

definition build_conditions :: "filters \<Rightarrow> py_exception + string list \<times> param list" where
  "build_conditions f =
     (case doc_number_condition f of
        Inl e \<Rightarrow> Inl e
      | Inr (c5, p5) \<Rightarrow>
          Inr (fst (date_condition f) @ fst (branch_condition f) @ fst (doc_type_condition f)
                 @ fst (product_condition f) @ c5,
               snd (date_condition f) @ snd (branch_condition f) @ snd (doc_type_condition f)
                 @ snd (product_condition f) @ p5))"

definition where_clause :: "string list \<Rightarrow> string" where
  "where_clause conditions = (if conditions \<noteq> [] then join '' AND '' conditions else ''1=1'')"

text \<open>
  The function returns the query text and the parameter tuple; the \<open>except\<close> branch returns
  the fallback query with no parameter. The entry it writes to \<open>query_cache\<close> is not read
  by any function and is left out.
\<close>

definition build_search_query :: "filters \<Rightarrow> string \<times> param list" where
  "build_search_query f =
     (case build_conditions f of
        Inl e \<Rightarrow> (base_query @ '' WHERE 1=0'', [])
      | Inr (conditions, parameters) \<Rightarrow>
          (base_query @ '' WHERE '' @ where_clause conditions
             @ '' ORDER BY Fecha DESC, VentaID DESC'', parameters))"

subsection \<open>validate_input\<close>

definition dangerous_keywords :: "string list" where
  "dangerous_keywords =
     [''DROP'', ''DELETE'', ''UPDATE'', ''INSERT'', ''EXEC'', ''EXECUTE'',
      ''SCRIPT'', ''UNION'', ''SELECT'', ''--'', ''/*'', ''*/'', '';'']"

text \<open>
  \<open>str.upper()\<close> maps each character to its upper-case string (one character may become
  several) and concatenates. The character mapping is Unicode's and is a parameter;
  \<open>ascii_upper\<close> is its restriction to ASCII letters.
\<close>

definition upper :: "(char \<Rightarrow> string) \<Rightarrow> string \<Rightarrow> string" where
  "upper to_upper s = concat (map to_upper s)"

definition ascii_upper :: "char \<Rightarrow> string" where
  "ascii_upper c =
     (let n = (of_char c :: nat) in if 97 \<le> n \<and> n \<le> 122 then [char_of (n - 32)] else [c])"

text \<open>
  \<open>keyword in upper_value\<close> is the contiguous-substring test \<^const>\<open>sublist\<close>. Whether
  \<open>int(value)\<close> and \<open>datetime.strptime(value, '%Y-%m-%d')\<close> succeed is decided by the
  Python library: \<open>int_ok\<close> and \<open>date_ok\<close>.
\<close>

definition validate_input ::
  "(char \<Rightarrow> string) \<Rightarrow> (string \<Rightarrow> bool) \<Rightarrow> (string \<Rightarrow> bool) \<Rightarrow> string \<Rightarrow> string \<Rightarrow> bool" where
  "validate_input to_upper int_ok date_ok v input_type =
     (if v = [] then True
      else if list_ex (\<lambda>keyword. sublist keyword (upper to_upper v)) dangerous_keywords then False
      else if input_type = ''number'' then int_ok v
      else if input_type = ''date'' then date_ok v
      else True)"

subsection \<open>What the query text depends on\<close>

text \<open>
  The shape of a filter object as the text of the query sees it: whether both dates are
  given and whether they are equal, the number of branches, the number of document types and
  of products unless \<open>'Todo'\<close> is among them, and whether the document number is
  \<open>None\<close>, blank or given.
\<close>

datatype date_shape = NoDateFilter | SingleDay | DateRange

datatype doc_shape = DocNone | DocBlank | DocGiven

definition date_shape_of :: "filters \<Rightarrow> date_shape" where
  "date_shape_of f =
     (case (start_date f, end_date f) of
        (Val s, Val e) \<Rightarrow> if s = e then SingleDay else DateRange
      | _ \<Rightarrow> NoDateFilter)"

definition doc_shape_of :: "filters \<Rightarrow> doc_shape" where
  "doc_shape_of f =
     (case document_number f of
        PyNone \<Rightarrow> DocNone
      | Missing \<Rightarrow> DocBlank
      | Val s \<Rightarrow> if strip s = [] then DocBlank else DocGiven)"

definition active_length :: "string list dictval \<Rightarrow> nat" where
  "active_length v = (if ''Todo'' \<in> set (get_list v) then 0 else length (get_list v))"

definition sql_shape :: "filters \<Rightarrow> date_shape \<times> nat \<times> nat \<times> nat \<times> doc_shape" where
  "sql_shape f =
     (date_shape_of f, length (get_list (branches f)), active_length (document_types f),
      active_length (products f), doc_shape_of f)"

text \<open>
  The shape in the words of the specification: which filters are present, and the lengths
  of the lists.
\<close>

definition is_val :: "'a dictval \<Rightarrow> bool" where
  "is_val v = (case v of Val x \<Rightarrow> True | _ \<Rightarrow> False)"

definition presence_shape :: "filters \<Rightarrow> bool \<times> bool \<times> nat \<times> nat \<times> nat \<times> bool" where
  "presence_shape f =
     (is_val (start_date f), is_val (end_date f), length (get_list (branches f)),
      length (get_list (document_types f)), length (get_list (products f)),
      is_val (document_number f))"

text \<open>Filter objects used as concrete inputs.\<close>

definition may_day :: filters where
  "may_day = \<lparr>start_date = Val (mk_date 2024 5 1), end_date = Val (mk_date 2024 5 1),
      branches = Val [''Osorno''], document_types = Val [''Factura''], products = Val [],
      document_number = Val []\<rparr>"

definition todo_filters :: filters where
  "todo_filters = \<lparr>start_date = Missing, end_date = Missing, branches = Missing,
      document_types = Val [''Factura'', ''Todo''], products = Val [''Todo''],
      document_number = Missing\<rparr>"

section \<open>Dates and clock readings\<close>

text \<open>
  The proleptic Gregorian calendar of \<open>datetime.date\<close>: \<open>toordinal\<close> numbers the
  days from 0001-01-01 (day 1), and the difference of two dates is the difference of their
  ordinals.
\<close>

definition is_leap :: "nat \<Rightarrow> bool" where
  "is_leap y \<longleftrightarrow> y mod 4 = 0 \<and> (y mod 100 \<noteq> 0 \<or> y mod 400 = 0)"

definition days_in_month :: "nat \<Rightarrow> nat \<Rightarrow> nat" where
  "days_in_month y m =
     (if m = 2 then (if is_leap y then 29 else 28)
      else if m = 4 \<or> m = 6 \<or> m = 9 \<or> m = 11 then 30 else 31)"

definition days_before_year :: "nat \<Rightarrow> int" where
  "days_before_year y =
     (let p = int y - 1 in p * 365 + p div 4 - p div 100 + p div 400)"

text \<open>The table \<open>_DAYS_BEFORE_MONTH\<close> of the \<open>datetime\<close> module.\<close>

definition days_before_month :: "nat \<Rightarrow> nat \<Rightarrow> int" where
  "days_before_month y m =
     (if m < 1 \<or> 12 < m then 0
      else [0, 31, 59, 90, 120, 151, 181, 212, 243, 273, 304, 334] ! (m - 1)
           + (if 2 < m \<and> is_leap y then 1 else 0))"

definition toordinal :: "date \<Rightarrow> int" where
  "toordinal d = days_before_year (year d) + days_before_month (year d) (month d) + int (day d)"

text \<open>\<open>(b - a).days\<close>\<close>

definition days_between :: "date \<Rightarrow> date \<Rightarrow> int" where
  "days_between a b = toordinal b - toordinal a"

definition valid_date :: "date \<Rightarrow> bool" where
  "valid_date d \<longleftrightarrow>
     1 \<le> year d \<and> year d \<le> 9999 \<and> 1 \<le> month d \<and> month d \<le> 12 \<and>
     1 \<le> day d \<and> day d \<le> days_in_month (year d) (month d)"

text \<open>The constructor \<open>date(y, m, d)\<close> raises \<open>ValueError\<close> outside the calendar.\<close>

definition date_new :: "nat \<Rightarrow> nat \<Rightarrow> nat \<Rightarrow> py_exception + date" where
  "date_new y m d = (if valid_date (mk_date y m d) then Inr (mk_date y m d) else Inl ValueError)"

text \<open>
  \<open>d - timedelta(days=1)\<close>: the day before, \<open>OverflowError\<close> before 0001-01-01.
\<close>

definition minus_one_day :: "date \<Rightarrow> py_exception + date" where
  "minus_one_day d =
     (if 1 < day d then Inr (mk_date (year d) (month d) (day d - 1))
      else if 1 < month d
        then Inr (mk_date (year d) (month d - 1) (days_in_month (year d) (month d - 1)))
      else if 1 < year d then Inr (mk_date (year d - 1) 12 31)
      else Inl OverflowError)"

text \<open>
  \<open>str(d)\<close> of a date is \<open>YYYY-MM-DD\<close>, each number padded with zeros to its width.
\<close>

definition digit_char :: "nat \<Rightarrow> char" where
  "digit_char n = char_of (48 + n mod 10)"

definition pad2 :: "nat \<Rightarrow> string" where
  "pad2 n = [digit_char (n div 10), digit_char n]"

definition pad4 :: "nat \<Rightarrow> string" where
  "pad4 n = [digit_char (n div 1000), digit_char (n div 100), digit_char (n div 10), digit_char n]"

definition date_str :: "date \<Rightarrow> string" where
  "date_str d = pad4 (year d) @ ''-'' @ pad2 (month d) @ ''-'' @ pad2 (day d)"

text \<open>
  A \<open>datetime\<close> is a number of microseconds on the clock's time line. The difference of two
  of them is a \<open>timedelta\<close>, which Python keeps normalised as days, seconds in
  \<open>0..86399\<close> and microseconds in \<open>0..999999\<close>; its attribute \<open>seconds\<close> is the second
  of these, \<open>total_seconds()\<close> the whole duration.
\<close>

type_synonym datetime = int

definition timedelta_seconds :: "int \<Rightarrow> int" where
  "timedelta_seconds us = (us mod 86400000000) div 1000000"

definition timedelta_days :: "int \<Rightarrow> int" where
  "timedelta_days us = us div 86400000000"

section \<open>data_processor.py: validate_date_range\<close>

text \<open>
  \<open>date.today()\<close> is the argument \<open>today\<close>. The default of \<open>business_start\<close> is
  \<open>date(2024, 4, 1)\<close>.
\<close>

definition validate_date_range :: "date \<Rightarrow> date \<Rightarrow> date \<Rightarrow> date \<Rightarrow> bool" where
  "validate_date_range today start_d end_d business_start =
     (if date_lt end_d start_d then False
      else if date_lt start_d business_start then False
      else if date_lt today end_d then False
      else if days_between start_d end_d > 730 then False
      else True)"

definition business_start_default :: date where
  "business_start_default = mk_date 2024 4 1"

section \<open>Decimal arithmetic in the module's context\<close>

text \<open>
  \<open>data_processor.py\<close> sets \<open>getcontext().prec = 10\<close> and leaves the rounding mode at
  its default, \<open>ROUND_HALF_EVEN\<close>. A finite \<open>Decimal\<close> is a coefficient and an
  exponent, with value \<open>coefficient * 10 ^ exponent\<close>. Constructing one from a string is
  exact; every arithmetic operation computes the exact result and rounds it to the ten
  significant digits of the context. \<open>NaN\<close>, the infinities and the exponent limits of the
  context (\<open>Emax = 999999\<close>) are outside the model: the amounts come from integer and
  \<open>DECIMAL\<close> columns of the database.
\<close>

type_synonym decimal = "int \<times> int"

definition prec :: nat where
  "prec = 10"

definition dec_val :: "decimal \<Rightarrow> rat" where
  "dec_val d =
     (if 0 \<le> snd d then of_int (fst d) * 10 ^ nat (snd d) else of_int (fst d) / 10 ^ nat (- snd d))"

fun ndigits :: "nat \<Rightarrow> nat" where
  "ndigits n = (if n < 10 then 1 else Suc (ndigits (n div 10)))"

declare ndigits.simps [simp del]

text \<open>\<open>n / 10 ^ k\<close> rounded to an integer, a tie going to the even neighbour.\<close>

definition round_half_even :: "nat \<Rightarrow> nat \<Rightarrow> nat" where
  "round_half_even n k =
     (let q = n div 10 ^ k; r = n mod 10 ^ k in
      if 2 * r > 10 ^ k \<or> (2 * r = 10 ^ k \<and> odd q) then q + 1 else q)"

text \<open>
  Rounding a result to the precision of the context (\<open>Decimal._fix\<close>): a coefficient of
  more than \<open>prec\<close> digits loses its last digits, and one that the rounding carries to
  \<open>10 ^ prec\<close> is written with \<open>prec\<close> digits again.
\<close>

definition dec_fix :: "decimal \<Rightarrow> decimal" where
  "dec_fix d =
     (let n = nat \<bar>fst d\<bar>; digits = ndigits n in
      if digits \<le> prec then d
      else
        (let k = digits - prec; q = round_half_even n k in
         if q = 10 ^ prec then (sgn (fst d) * 10 ^ (prec - 1), snd d + int k + 1)
         else (sgn (fst d) * int q, snd d + int k)))"

text \<open>The exact sum, on the smaller of the two exponents.\<close>

definition dec_plus :: "decimal \<Rightarrow> decimal \<Rightarrow> decimal" where
  "dec_plus a b =
     (let e = min (snd a) (snd b) in
      (fst a * 10 ^ nat (snd a - e) + fst b * 10 ^ nat (snd b - e), e))"

text \<open>\<open>a + b\<close> on two \<open>Decimal\<close>s.\<close>

definition dec_add :: "decimal \<Rightarrow> decimal \<Rightarrow> decimal" where
  "dec_add a b = dec_fix (dec_plus a b)"

text \<open>
  \<open>a / b\<close> on two \<open>Decimal\<close>s (\<open>Decimal.__truediv__\<close>): the quotient of the
  coefficients is computed to \<open>prec + 1\<close> digits or more, a non-zero remainder is recorded
  in its last digit, and the result is rounded to the context. Dividing by zero raises.
\<close>

definition dec_div :: "decimal \<Rightarrow> decimal \<Rightarrow> py_exception + decimal" where
  "dec_div a b =
     (if fst b = 0 then (if fst a = 0 then Inl InvalidOperation else Inl DivisionByZero)
      else if fst a = 0 then Inr (dec_fix (0, snd a - snd b))
      else
        (let n1 = nat \<bar>fst a\<bar>; n2 = nat \<bar>fst b\<bar>;
             shift = int (ndigits n2) - int (ndigits n1) + int prec + 1;
             num = (if 0 \<le> shift then n1 * 10 ^ nat shift else n1);
             den = (if 0 \<le> shift then n2 else n2 * 10 ^ nat (- shift));
             coeff = num div den;
             remainder = num mod den;
             coeff' = (if remainder \<noteq> 0 \<and> coeff mod 5 = 0 then coeff + 1 else coeff)
         in Inr (dec_fix (sgn (fst a) * sgn (fst b) * int coeff', snd a - snd b - shift))))"

text \<open>
  A number as the database connector hands it over: \<open>None\<close> for SQL \<open>NULL\<close>, an
  \<open>int\<close> or a \<open>Decimal\<close>.
\<close>

datatype pyval = PNone | PInt int | PDec decimal

text \<open>\<open>Decimal(str(v))\<close>: exact for a number, \<open>InvalidOperation\<close> for \<open>None\<close>.\<close>

definition to_decimal :: "pyval \<Rightarrow> py_exception + decimal" where
  "to_decimal v =
     (case v of PNone \<Rightarrow> Inl InvalidOperation | PInt n \<Rightarrow> Inr (n, 0) | PDec d \<Rightarrow> Inr d)"

text \<open>
  \<open>a + b\<close> on two numbers: exact on two \<open>int\<close>s, the context's addition as soon as one
  of them is a \<open>Decimal\<close>, \<open>TypeError\<close> with \<open>None\<close>.
\<close>

definition py_add :: "pyval \<Rightarrow> pyval \<Rightarrow> py_exception + pyval" where
  "py_add a b =
     (case (a, b) of
        (PInt m, PInt n) \<Rightarrow> Inr (PInt (m + n))
      | (PInt m, PDec d) \<Rightarrow> Inr (PDec (dec_add (m, 0) d))
      | (PDec c, PInt n) \<Rightarrow> Inr (PDec (dec_add c (n, 0)))
      | (PDec c, PDec d) \<Rightarrow> Inr (PDec (dec_add c d))
      | _ \<Rightarrow> Inl TypeError)"

definition pyval_val :: "pyval \<Rightarrow> rat" where
  "pyval_val v = (case v of PNone \<Rightarrow> 0 | PInt n \<Rightarrow> of_int n | PDec d \<Rightarrow> dec_val d)"

section \<open>data_processor.py: SalesDataProcessor\<close>

subsection \<open>Product categories\<close>

record product_categories =
  PRODUCT_ORDER :: "string list"
  PRODUCT_UNIT :: "string \<rightharpoonup> string"
  PELLET_PRODUCTS :: "string list"
  VACAM_PRODUCTS :: "string list"
  SALES_TYPE_MAP :: "string \<rightharpoonup> string"

definition get_fallback_categories :: product_categories where
  "get_fallback_categories =
     \<lparr>PRODUCT_ORDER =
        [''Pellet Bolsa 15 Kg (Retiro)'', ''Pellet Bolsa 15 Kg (Despacho)'',
         ''Pellet Bolsa 15 Kg (Distribuidor)''],
      PRODUCT_UNIT = map_of
        [(''Pellet Bolsa 15 Kg (Retiro)'', ''bolsas''),
         (''Pellet Bolsa 15 Kg (Despacho)'', ''bolsas''),
         (''Pellet Bolsa 15 Kg (Distribuidor)'', ''bolsas'')],
      PELLET_PRODUCTS =
        [''Pellet Bolsa 15 Kg (Retiro)'', ''Pellet Bolsa 15 Kg (Despacho)'',
         ''Pellet Bolsa 15 Kg (Distribuidor)''],
      VACAM_PRODUCTS = [],
      SALES_TYPE_MAP = map_of
        [(''Pellet Bolsa 15 Kg (Retiro)'', ''Local''),
         (''Pellet Bolsa 15 Kg (Despacho)'', ''Local''),
         (''Pellet Bolsa 15 Kg (Distribuidor)'', ''Distribuidor'')]\<rparr>"

text \<open>\<open>_get_sales_type\<close>\<close>

definition get_sales_type :: "product_categories \<Rightarrow> string \<Rightarrow> string" where
  "get_sales_type cats product =
     (case SALES_TYPE_MAP cats product of None \<Rightarrow> ''Unknown'' | Some t \<Rightarrow> t)"

subsection \<open>Rows and branch totals\<close>

text \<open>
  A row of the grouped sales query, as the dictionary cursor returns it: every selected
  column is a key, and a sum over no value is \<open>None\<close>.
\<close>

record row =
  PuntoVenta :: string
  Articulo :: string
  total_kilos :: pyval
  total_cantidad :: pyval
  total_total :: pyval
  total_neto :: pyval

text \<open>
  The totals of one branch and one sales type. \<open>cantidad\<close> and \<open>toneladas\<close> start
  as the \<open>int\<close> 0, the two amounts as \<open>Decimal('0')\<close>.
\<close>

record bucket =
  cantidad :: pyval
  toneladas :: pyval
  total_neto :: decimal
  total_bruto :: decimal

text \<open>
  The two keys of a branch dictionary, \<open>"Pellet (venta local)"\<close> and
  \<open>"Pellet (venta distribuidor)"\<close>, and the two branch dictionaries, which the result
  holds under \<open>'osorno'\<close> and \<open>'union'\<close>.
\<close>

record branch_totals =
  pellet_local :: bucket
  pellet_distribuidor :: bucket

record branch_data =
  osorno_data :: branch_totals
  union_data :: branch_totals

datatype product_key = VentaLocal | VentaDistribuidor

datatype branch = Osorno | LaUnion

definition La_Union :: string where
  "La_Union = ''La Uni'' @ [CHR 0xF3] @ ''n''"

definition empty_bucket :: bucket where
  "empty_bucket = \<lparr>cantidad = PInt 0, toneladas = PInt 0, total_neto = (0, 0), total_bruto = (0, 0)\<rparr>"

definition empty_structure :: branch_totals where
  "empty_structure = \<lparr>pellet_local = empty_bucket, pellet_distribuidor = empty_bucket\<rparr>"

text \<open>\<open>_get_empty_branch_data\<close>\<close>

definition get_empty_branch_data :: branch_data where
  "get_empty_branch_data = \<lparr>osorno_data = empty_structure, union_data = empty_structure\<rparr>"

definition get_bucket :: "branch \<Rightarrow> product_key \<Rightarrow> branch_data \<Rightarrow> bucket" where
  "get_bucket b k bd =
     (let t = (case b of Osorno \<Rightarrow> osorno_data bd | LaUnion \<Rightarrow> union_data bd) in
      case k of VentaLocal \<Rightarrow> pellet_local t | VentaDistribuidor \<Rightarrow> pellet_distribuidor t)"

definition set_bucket :: "branch \<Rightarrow> product_key \<Rightarrow> bucket \<Rightarrow> branch_data \<Rightarrow> branch_data" where
  "set_bucket b k v bd =
     (case (b, k) of
        (Osorno, VentaLocal) \<Rightarrow> bd\<lparr>osorno_data := (osorno_data bd)\<lparr>pellet_local := v\<rparr>\<rparr>
      | (Osorno, VentaDistribuidor) \<Rightarrow> bd\<lparr>osorno_data := (osorno_data bd)\<lparr>pellet_distribuidor := v\<rparr>\<rparr>
      | (LaUnion, VentaLocal) \<Rightarrow> bd\<lparr>union_data := (union_data bd)\<lparr>pellet_local := v\<rparr>\<rparr>
      | (LaUnion, VentaDistribuidor) \<Rightarrow> bd\<lparr>union_data := (union_data bd)\<lparr>pellet_distribuidor := v\<rparr>\<rparr>)"

subsection \<open>The aggregation loop\<close>

text \<open>
  The four \<open>+=\<close> on one bucket, in the order of the source: the quantity as the row
  holds it, then the tons, the net and the gross amount.
\<close>

definition add_to_bucket ::
  "bucket \<Rightarrow> pyval \<Rightarrow> decimal \<Rightarrow> decimal \<Rightarrow> decimal \<Rightarrow> py_exception + bucket" where
  "add_to_bucket b quantity tons neto tot =
     (case py_add (cantidad b) quantity of
        Inl e \<Rightarrow> Inl e
      | Inr c \<Rightarrow>
          (case py_add (toneladas b) (PDec tons) of
             Inl e \<Rightarrow> Inl e
           | Inr t \<Rightarrow>
               Inr \<lparr>cantidad = c, toneladas = t,
                    total_neto = dec_add (bucket.total_neto b) neto,
                    total_bruto = dec_add (total_bruto b) tot\<rparr>))"

text \<open>The sales type decides the key; a product of any other type is skipped.\<close>

definition product_key_of :: "product_categories \<Rightarrow> string \<Rightarrow> product_key option" where
  "product_key_of cats product =
     (let sales_type = get_sales_type cats product in
      if sales_type = ''Local'' then Some VentaLocal
      else if sales_type = ''Distribuidor'' then Some VentaDistribuidor
      else None)"

definition branch_of :: "string \<Rightarrow> branch option" where
  "branch_of name =
     (if name = ''Osorno'' then Some Osorno
      else if name = La_Union then Some LaUnion
      else None)"

text \<open>
  The body of the loop over the rows, the same statements in
  \<open>_process_branch_sales_data\<close> and in \<open>_aggregate_monthly_data\<close>: the conversions come
  first and raise on \<open>None\<close> whatever the product and the branch are.
\<close>

definition aggregate_record ::
  "product_categories \<Rightarrow> branch_data \<Rightarrow> row \<Rightarrow> py_exception + branch_data" where
  "aggregate_record cats bd r =
     (case to_decimal (total_total r) of
        Inl e \<Rightarrow> Inl e
      | Inr tot \<Rightarrow>
     (case to_decimal (row.total_neto r) of
        Inl e \<Rightarrow> Inl e
      | Inr neto \<Rightarrow>
     (case to_decimal (total_kilos r) of
        Inl e \<Rightarrow> Inl e
      | Inr kilos \<Rightarrow>
     (case dec_div kilos (1000, 0) of
        Inl e \<Rightarrow> Inl e
      | Inr tons \<Rightarrow>
     (case product_key_of cats (Articulo r) of
        None \<Rightarrow> Inr bd
      | Some k \<Rightarrow>
     (case branch_of (PuntoVenta r) of
        None \<Rightarrow> Inr bd
      | Some b \<Rightarrow>
     (case add_to_bucket (get_bucket b k bd) (total_cantidad r) tons neto tot of
        Inl e \<Rightarrow> Inl e
      | Inr v \<Rightarrow> Inr (set_bucket b k v bd))))))))"

fun aggregate_rows ::
  "product_categories \<Rightarrow> branch_data \<Rightarrow> row list \<Rightarrow> py_exception + branch_data" where
  "aggregate_rows cats bd [] = Inr bd"
| "aggregate_rows cats bd (r # rs) =
     (case aggregate_record cats bd r of
        Inl e \<Rightarrow> Inl e
      | Inr bd' \<Rightarrow> aggregate_rows cats bd' rs)"

text \<open>\<open>_process_branch_sales_data\<close>: the loop from the all-zero structure.\<close>

definition process_branch_sales_data ::
  "product_categories \<Rightarrow> row list \<Rightarrow> py_exception + branch_data" where
  "process_branch_sales_data cats raw_data = aggregate_rows cats get_empty_branch_data raw_data"

text \<open>
  \<open>_aggregate_monthly_data\<close>: the loop on the two dictionaries it is given, which it
  updates in place.
\<close>

definition aggregate_monthly_data ::
  "product_categories \<Rightarrow> row list \<Rightarrow> branch_data \<Rightarrow> py_exception + branch_data" where
  "aggregate_monthly_data cats monthly_data bd = aggregate_rows cats bd monthly_data"

subsection \<open>Totals as numbers, and the contribution of a row\<close>

text \<open>
  Python compares two \<open>Decimal\<close>s, or a \<open>Decimal\<close> and an \<open>int\<close>, by value: the
  totals are read as rationals.
\<close>

datatype total_field = Cantidad | Toneladas | TotalNeto | TotalBruto

definition field_val :: "total_field \<Rightarrow> bucket \<Rightarrow> rat" where
  "field_val fld b =
     (case fld of
        Cantidad \<Rightarrow> pyval_val (cantidad b)
      | Toneladas \<Rightarrow> pyval_val (toneladas b)
      | TotalNeto \<Rightarrow> dec_val (bucket.total_neto b)
      | TotalBruto \<Rightarrow> dec_val (total_bruto b))"

text \<open>
  What one row adds to a field: its quantity, its kilos divided by 1000 (the division of
  the context), its net or its gross amount.
\<close>

definition row_tons :: "row \<Rightarrow> rat" where
  "row_tons r =
     (case to_decimal (total_kilos r) of
        Inl e \<Rightarrow> 0
      | Inr kilos \<Rightarrow> (case dec_div kilos (1000, 0) of Inl e \<Rightarrow> 0 | Inr tons \<Rightarrow> dec_val tons))"

definition row_field :: "total_field \<Rightarrow> row \<Rightarrow> rat" where
  "row_field fld r =
     (case fld of
        Cantidad \<Rightarrow> pyval_val (total_cantidad r)
      | Toneladas \<Rightarrow> row_tons r
      | TotalNeto \<Rightarrow> pyval_val (row.total_neto r)
      | TotalBruto \<Rightarrow> pyval_val (total_total r))"

text \<open>
  The contribution of a row to the bucket of branch \<open>b\<close> and sales type \<open>k\<close>: the
  row's values when it belongs to that branch and sales type, nothing otherwise.
\<close>

definition contribution ::
  "product_categories \<Rightarrow> branch \<Rightarrow> product_key \<Rightarrow> total_field \<Rightarrow> row \<Rightarrow> rat" where
  "contribution cats b k fld r =
     (if branch_of (PuntoVenta r) = Some b \<and> product_key_of cats (Articulo r) = Some k
      then row_field fld r else 0)"

text \<open>
  An addition is exact when rounding to the precision of the context does not change the
  sum. \<open>exact_rows\<close> follows the loop and holds when every addition it makes is exact.
\<close>

definition exact_py_add :: "pyval \<Rightarrow> pyval \<Rightarrow> bool" where
  "exact_py_add a b =
     (case py_add a b of Inl e \<Rightarrow> True | Inr c \<Rightarrow> pyval_val c = pyval_val a + pyval_val b)"

definition exact_dec_add :: "decimal \<Rightarrow> decimal \<Rightarrow> bool" where
  "exact_dec_add a b \<longleftrightarrow> dec_val (dec_add a b) = dec_val a + dec_val b"

definition exact_record :: "product_categories \<Rightarrow> branch_data \<Rightarrow> row \<Rightarrow> bool" where
  "exact_record cats bd r =
     (case (branch_of (PuntoVenta r), product_key_of cats (Articulo r)) of
        (Some b, Some k) \<Rightarrow>
          exact_py_add (cantidad (get_bucket b k bd)) (total_cantidad r) \<and>
          (case to_decimal (total_kilos r) of
             Inl e \<Rightarrow> True
           | Inr kilos \<Rightarrow>
               (case dec_div kilos (1000, 0) of
                  Inl e \<Rightarrow> True
                | Inr tons \<Rightarrow> exact_py_add (toneladas (get_bucket b k bd)) (PDec tons))) \<and>
          (case to_decimal (row.total_neto r) of
             Inl e \<Rightarrow> True
           | Inr neto \<Rightarrow> exact_dec_add (bucket.total_neto (get_bucket b k bd)) neto) \<and>
          (case to_decimal (total_total r) of
             Inl e \<Rightarrow> True
           | Inr tot \<Rightarrow> exact_dec_add (total_bruto (get_bucket b k bd)) tot)
      | _ \<Rightarrow> True)"

fun exact_rows :: "product_categories \<Rightarrow> branch_data \<Rightarrow> row list \<Rightarrow> bool" where
  "exact_rows cats bd [] = True"
| "exact_rows cats bd (r # rs) =
     (exact_record cats bd r \<and>
      (case aggregate_record cats bd r of
         Inl e \<Rightarrow> True
       | Inr bd' \<Rightarrow> exact_rows cats bd' rs))"

text \<open>Rows used as concrete inputs.\<close>

definition big_row :: row where
  "big_row = \<lparr>PuntoVenta = ''Osorno'', Articulo = ''Pellet Bolsa 15 Kg (Retiro)'',
      total_kilos = PDec (15000, 0), total_cantidad = PDec (1000, 0),
      total_total = PDec (12345678905, 0), total_neto = PDec (10374520088, 0)\<rparr>"

definition small_row :: row where
  "small_row = \<lparr>PuntoVenta = ''Osorno'', Articulo = ''Pellet Bolsa 15 Kg (Despacho)'',
      total_kilos = PInt 15, total_cantidad = PInt 1,
      total_total = PInt 5, total_neto = PInt 4\<rparr>"

definition union_row :: row where
  "union_row = \<lparr>PuntoVenta = La_Union, Articulo = ''Pellet Bolsa 15 Kg (Distribuidor)'',
      total_kilos = PDec (4500, 0), total_cantidad = PDec (300, 0),
      total_total = PDec (1428000, 0), total_neto = PDec (1200000, 0)\<rparr>"

definition null_row :: row where
  "null_row = \<lparr>PuntoVenta = ''Osorno'', Articulo = ''Pellet Bolsa 15 Kg (Retiro)'',
      total_kilos = PNone, total_cantidad = PNone, total_total = PNone, total_neto = PNone\<rparr>"

text \<open>
  A field of a bucket of the result, when the function returns one. A row is well formed
  when the loop body does not raise on it: no \<open>None\<close> among the three values it converts,
  and a quantity when the row is added to a bucket.
\<close>

definition result_field ::
  "total_field \<Rightarrow> branch \<Rightarrow> product_key \<Rightarrow> py_exception + branch_data \<Rightarrow> rat option" where
  "result_field fld b k res =
     (case res of Inl e \<Rightarrow> None | Inr bd \<Rightarrow> Some (field_val fld (get_bucket b k bd)))"

definition row_ok :: "product_categories \<Rightarrow> row \<Rightarrow> bool" where
  "row_ok cats r \<longleftrightarrow>
     total_total r \<noteq> PNone \<and> row.total_neto r \<noteq> PNone \<and> total_kilos r \<noteq> PNone \<and>
     (branch_of (PuntoVenta r) = None \<or> product_key_of cats (Articulo r) = None \<or>
      total_cantidad r \<noteq> PNone)"

definition bd_ok :: "branch_data \<Rightarrow> bool" where
  "bd_ok bd \<longleftrightarrow>
     list_all (\<lambda>v. bucket.cantidad v \<noteq> PNone \<and> bucket.toneladas v \<noteq> PNone)
       [get_bucket Osorno VentaLocal bd, get_bucket Osorno VentaDistribuidor bd,
        get_bucket LaUnion VentaLocal bd, get_bucket LaUnion VentaDistribuidor bd]"

definition small_state :: branch_data where
  "small_state =
     set_bucket Osorno VentaLocal
       \<lparr>cantidad = PInt 1, toneladas = PDec (1500000000, - 11), total_neto = (4, 0),
        total_bruto = (5, 0)\<rparr> get_empty_branch_data"

subsection \<open>The database\<close>

text \<open>
  What happens when a query is sent to the database is outside the program: \<open>conectar()\<close>
  returns \<open>None\<close>, or a step of connecting, executing, fetching or closing raises, or the
  rows come back. The database is a function from the query and its parameters to one of
  these outcomes.
\<close>

datatype db_outcome = ConnectionNone | Raises py_exception | Rows "row list"

type_synonym database = "string \<Rightarrow> param list \<Rightarrow> db_outcome"

text \<open>The body of the \<open>try\<close> block of \<open>_execute_query\<close>.\<close>

definition execute_query_body :: "database \<Rightarrow> string \<Rightarrow> param list \<Rightarrow> py_exception + row list" where
  "execute_query_body db query params =
     (case db query params of
        ConnectionNone \<Rightarrow> Inr []
      | Raises e \<Rightarrow> Inl e
      | Rows results \<Rightarrow> Inr results)"

text \<open>
  \<open>_execute_query\<close>: the handler for \<open>mysql.connector.Error\<close> and the handler for
  \<open>Exception\<close> both return the empty list. The result is a sum so that an exception
  leaving the function would be a value of the model.
\<close>

definition execute_query :: "database \<Rightarrow> string \<Rightarrow> param list \<Rightarrow> py_exception + row list" where
  "execute_query db query params =
     (case execute_query_body db query params of
        Inl e \<Rightarrow> (if e = DatabaseError then Inr [] else Inr [])
      | Inr results \<Rightarrow> Inr results)"

subsection \<open>The processor and its cache\<close>

text \<open>
  The attributes of a \<open>SalesDataProcessor\<close>. \<open>__init__\<close> sets \<open>cache_timeout\<close> to 300
  and \<open>iva_rate\<close> to \<open>Decimal('1.19')\<close>, and starts with both cache dictionaries empty.
\<close>

record processor =
  exchange_rate :: decimal
  data_cache :: "string \<rightharpoonup> branch_data"
  cache_timeout :: int
  last_cache_update :: "string \<rightharpoonup> datetime"
  iva_rate :: decimal
  product_categories :: product_categories

definition init_processor :: "decimal \<Rightarrow> product_categories \<Rightarrow> processor" where
  "init_processor rate cats =
     \<lparr>exchange_rate = rate, data_cache = Map.empty, cache_timeout = 300,
      last_cache_update = Map.empty, iva_rate = (119, - 2), product_categories = cats\<rparr>"

text \<open>
  \<open>_is_cache_valid\<close>, with the reading of \<open>datetime.now()\<close> as an argument. The test
  reads the attribute \<open>seconds\<close> of the difference.
\<close>

definition is_cache_valid :: "processor \<Rightarrow> datetime \<Rightarrow> string \<Rightarrow> bool" where
  "is_cache_valid self now cache_key =
     (case data_cache self cache_key of
        None \<Rightarrow> False
      | Some v \<Rightarrow>
          (case last_cache_update self cache_key of
             None \<Rightarrow> False
           | Some stored \<Rightarrow> timedelta_seconds (now - stored) < cache_timeout self))"

text \<open>\<open>clear_cache\<close>\<close>

definition clear_cache :: "processor \<Rightarrow> processor" where
  "clear_cache self = self\<lparr>data_cache := Map.empty, last_cache_update := Map.empty\<rparr>"

subsection \<open>get_sales_by_branch_data\<close>

definition branch_sales_key :: "date \<Rightarrow> date \<Rightarrow> string" where
  "branch_sales_key start_d end_d = ''branch_sales_'' @ date_str start_d @ ''_'' @ date_str end_d"

definition branch_sales_query :: "string \<Rightarrow> string" where
  "branch_sales_query query_condition =
     nl @ ''                SELECT PuntoVenta, Articulo, SUM(KilosTotales) AS total_kilos, '' @
     nl @ ''                       SUM(Unidad) AS total_cantidad, SUM(Total) AS total_total, '' @
     nl @ ''                       SUM(Neto) AS total_neto'' @
     nl @ ''                FROM VentasDiarias'' @
     nl @ ''                WHERE '' @ query_condition @
     nl @ ''                GROUP BY PuntoVenta, Articulo'' @
     nl @ ''            ''"

text \<open>
  The body of the \<open>try\<close> block: the query, the aggregation, the two cache entries.
  \<open>now_store\<close> is the clock when the result is stored.
\<close>

definition branch_sales_body ::
  "processor \<Rightarrow> database \<Rightarrow> datetime \<Rightarrow> date \<Rightarrow> date \<Rightarrow> py_exception + branch_data \<times> processor" where
  "branch_sales_body self db now_store start_d end_d =
     (let cache_key = branch_sales_key start_d end_d;
          query_condition = (if start_d = end_d then ''Fecha = %s'' else ''Fecha BETWEEN %s AND %s'');
          query_params = (if start_d = end_d then [PDate start_d] else [PDate start_d, PDate end_d])
      in case execute_query db (branch_sales_query query_condition) query_params of
           Inl e \<Rightarrow> Inl e
         | Inr raw_data \<Rightarrow>
             (case process_branch_sales_data (product_categories self) raw_data of
                Inl e \<Rightarrow> Inl e
              | Inr processed_data \<Rightarrow>
                  Inr (processed_data,
                       self\<lparr>data_cache := (data_cache self)(cache_key \<mapsto> processed_data),
                            last_cache_update := (last_cache_update self)(cache_key \<mapsto> now_store)\<rparr>)))"

text \<open>
  The function returns its result and the processor as it leaves it. The cache test and the
  read of the cached entry are outside the \<open>try\<close> block: a missing entry there would
  raise \<open>KeyError\<close> to the caller. \<open>now\<close> is the clock at the cache test.
\<close>

definition get_sales_by_branch_data ::
  "processor \<Rightarrow> database \<Rightarrow> datetime \<Rightarrow> datetime \<Rightarrow> date \<Rightarrow> date \<Rightarrow>
   py_exception + branch_data \<times> processor" where
  "get_sales_by_branch_data self db now now_store start_d end_d =
     (let cache_key = branch_sales_key start_d end_d in
      if is_cache_valid self now cache_key
      then (case data_cache self cache_key of
              None \<Rightarrow> Inl KeyError
            | Some cached \<Rightarrow> Inr (cached, self))
      else (case branch_sales_body self db now_store start_d end_d of
              Inl e \<Rightarrow> Inr (get_empty_branch_data, self)
            | Inr result \<Rightarrow> Inr result))"

subsection \<open>get_monthly_sales_by_branch_data\<close>

definition monthly_sales_key :: "date \<Rightarrow> date \<Rightarrow> string" where
  "monthly_sales_key start_d end_d =
     ''monthly_branch_sales_'' @ date_str start_d @ ''_'' @ date_str end_d"

definition monthly_query :: string where
  "monthly_query =
     nl @ ''            SELECT PuntoVenta, Articulo, SUM(KilosTotales) AS total_kilos, '' @
     nl @ ''                   SUM(Unidad) AS total_cantidad, SUM(Total) AS total_total, '' @
     nl @ ''                   SUM(Neto) AS total_neto'' @
     nl @ ''            FROM VentasDiarias'' @
     nl @ ''            WHERE Fecha BETWEEN %s AND %s'' @
     nl @ ''            GROUP BY PuntoVenta, Articulo'' @
     nl @ ''        ''"

text \<open>\<open>_get_monthly_data\<close>\<close>

definition get_monthly_data :: "database \<Rightarrow> date \<Rightarrow> date \<Rightarrow> py_exception + row list" where
  "get_monthly_data db month_start month_end =
     execute_query db monthly_query [PDate month_start, PDate month_end]"

text \<open>The first and the last day of month \<open>m\<close> of year \<open>y\<close>, as the loop computes them.\<close>

definition month_bounds :: "nat \<Rightarrow> nat \<Rightarrow> py_exception + date \<times> date" where
  "month_bounds y m =
     (case date_new y m 1 of
        Inl e \<Rightarrow> Inl e
      | Inr month_start \<Rightarrow>
          (case (if m = 12 then date_new (y + 1) 1 1 else date_new y (m + 1) 1) of
             Inl e \<Rightarrow> Inl e
           | Inr next_month \<Rightarrow>
               (case minus_one_day next_month of
                  Inl e \<Rightarrow> Inl e
                | Inr month_end \<Rightarrow> Inr (month_start, month_end))))"

text \<open>
  The loop \<open>for month in range(start_month, end_month + 1)\<close> on the remaining months, with
  the two dictionaries it updates.
\<close>

fun monthly_loop ::
  "product_categories \<Rightarrow> database \<Rightarrow> nat \<Rightarrow> nat \<Rightarrow> nat list \<Rightarrow> branch_data \<Rightarrow>
   py_exception + branch_data" where
  "monthly_loop cats db current_year end_year [] bd = Inr bd"
| "monthly_loop cats db current_year end_year (m # months) bd =
     (if current_year \<noteq> end_year \<and> 12 < m then Inr bd
      else
        (case month_bounds current_year m of
           Inl e \<Rightarrow> Inl e
         | Inr (month_start, month_end) \<Rightarrow>
             (case get_monthly_data db month_start month_end of
                Inl e \<Rightarrow> Inl e
              | Inr monthly_data \<Rightarrow>
                  (case aggregate_monthly_data cats monthly_data bd of
                     Inl e \<Rightarrow> Inl e
                   | Inr bd' \<Rightarrow> monthly_loop cats db current_year end_year months bd'))))"

definition monthly_sales_body ::
  "processor \<Rightarrow> database \<Rightarrow> datetime \<Rightarrow> date \<Rightarrow> date \<Rightarrow> py_exception + branch_data \<times> processor" where
  "monthly_sales_body self db now_store start_d end_d =
     (let cache_key = monthly_sales_key start_d end_d;
          start_month = month start_d;
          start_year = year start_d;
          end_month = month end_d;
          end_year = year end_d
      in case monthly_loop (product_categories self) db start_year end_year
                [start_month..<end_month + 1] get_empty_branch_data of
           Inl e \<Rightarrow> Inl e
         | Inr result \<Rightarrow>
             Inr (result,
                  self\<lparr>data_cache := (data_cache self)(cache_key \<mapsto> result),
                       last_cache_update := (last_cache_update self)(cache_key \<mapsto> now_store)\<rparr>))"

definition get_monthly_sales_by_branch_data ::
  "processor \<Rightarrow> database \<Rightarrow> datetime \<Rightarrow> datetime \<Rightarrow> date \<Rightarrow> date \<Rightarrow>
   py_exception + branch_data \<times> processor" where
  "get_monthly_sales_by_branch_data self db now now_store start_d end_d =
     (let cache_key = monthly_sales_key start_d end_d in
      if is_cache_valid self now cache_key
      then (case data_cache self cache_key of
              None \<Rightarrow> Inl KeyError
            | Some cached \<Rightarrow> Inr (cached, self))
      else (case monthly_sales_body self db now_store start_d end_d of
              Inl e \<Rightarrow> Inr (get_empty_branch_data, self)
            | Inr result \<Rightarrow> Inr result))"

text \<open>
  The loop of \<open>get_monthly_sales_by_branch_data\<close> in the words of claim C9: the months of
  the list, all taken in year \<open>y\<close>, each queried and aggregated in turn.
\<close>

fun aggregate_months ::
  "product_categories \<Rightarrow> database \<Rightarrow> nat \<Rightarrow> nat list \<Rightarrow> branch_data \<Rightarrow>
   py_exception + branch_data" where
  "aggregate_months cats db y [] bd = Inr bd"
| "aggregate_months cats db y (m # months) bd =
     (case month_bounds y m of
        Inl e \<Rightarrow> Inl e
      | Inr (month_start, month_end) \<Rightarrow>
          (case get_monthly_data db month_start month_end of
             Inl e \<Rightarrow> Inl e
           | Inr monthly_data \<Rightarrow>
               (case aggregate_monthly_data cats monthly_data bd of
                  Inl e \<Rightarrow> Inl e
                | Inr bd' \<Rightarrow> aggregate_months cats db y months bd')))"

subsection \<open>The processors a program can reach\<close>

text \<open>
  A processor starts from \<open>__init__\<close> and changes only through the methods that write its
  cache: the two cached queries, \<open>clear_cache\<close> and \<open>update_exchange_rate\<close>. The dates are
  \<open>date\<close> objects, hence dates of the calendar, and the callers only read the dictionaries
  they are handed.
\<close>

inductive reachable :: "processor \<Rightarrow> bool" where
  init: "reachable (init_processor rate cats)"
| branch_sales:
    "reachable self \<Longrightarrow> valid_date s \<Longrightarrow> valid_date e \<Longrightarrow>
     get_sales_by_branch_data self db now now_store s e = Inr (v, self') \<Longrightarrow> reachable self'"
| monthly_sales:
    "reachable self \<Longrightarrow> valid_date s \<Longrightarrow> valid_date e \<Longrightarrow>
     get_monthly_sales_by_branch_data self db now now_store s e = Inr (v, self') \<Longrightarrow>
     reachable self'"
| clear: "reachable self \<Longrightarrow> reachable (clear_cache self)"
| update_exchange_rate:
    "reachable self \<Longrightarrow> reachable (clear_cache (self\<lparr>exchange_rate := new_rate\<rparr>))"

text \<open>
  The cache holds nothing but the all-zero structure for a monthly range whose end month is
  before its start month.
\<close>

definition backward_ranges_empty :: "processor \<Rightarrow> bool" where
  "backward_ranges_empty self \<longleftrightarrow>
     (\<forall>s e. valid_date s \<longrightarrow> valid_date e \<longrightarrow> month e < month s \<longrightarrow>
        (case data_cache self (monthly_sales_key s e) of
           None \<Rightarrow> True
         | Some v \<Rightarrow> v = get_empty_branch_data))"

subsection \<open>process_daily_sales_summary\<close>

text \<open>
  A row of the daily sales data. The key \<open>"kilos"\<close> is read with \<open>record.get\<close> and may
  be missing.
\<close>

record daily_row =
  producto :: string
  cantidad :: pyval
  total' :: pyval
  kilos :: "pyval dictval"

text \<open>
  An entry of the summary. The three derived keys are absent until the second loop sets
  them.
\<close>

record summary_entry =
  cantidad :: int
  total_bruto :: decimal
  kilos :: pyval
  unit :: string
  total_neto :: "decimal option"
  total_dolares :: "decimal option"
  toneladas :: "decimal option"

text \<open>
  The summary is a dictionary in insertion order: assigning to a key that is present
  replaces its value in place, assigning to a new key appends it.
\<close>

type_synonym summary = "(string \<times> summary_entry) list"

fun dict_set :: "string \<Rightarrow> summary_entry \<Rightarrow> summary \<Rightarrow> summary" where
  "dict_set k v [] = [(k, v)]"
| "dict_set k v ((k', v') # xs) = (if k' = k then (k, v) # xs else (k', v') # dict_set k v xs)"

text \<open>\<open>int(v)\<close>: a \<open>Decimal\<close> is truncated towards zero, \<open>None\<close> raises.\<close>

definition py_int :: "pyval \<Rightarrow> py_exception + int" where
  "py_int v =
     (case v of
        PNone \<Rightarrow> Inl TypeError
      | PInt n \<Rightarrow> Inr n
      | PDec d \<Rightarrow>
          (if 0 \<le> snd d then Inr (fst d * 10 ^ nat (snd d))
           else Inr (sgn (fst d) * (\<bar>fst d\<bar> div 10 ^ nat (- snd d)))))"

text \<open>\<open>v / d\<close> for a number \<open>v\<close> and a \<open>Decimal\<close> \<open>d\<close>.\<close>

definition py_div_dec :: "pyval \<Rightarrow> decimal \<Rightarrow> py_exception + decimal" where
  "py_div_dec v d =
     (case v of
        PNone \<Rightarrow> Inl TypeError
      | PInt n \<Rightarrow> dec_div (n, 0) d
      | PDec c \<Rightarrow> dec_div c d)"

text \<open>The body of the first loop, for one row.\<close>

definition daily_record :: "processor \<Rightarrow> summary \<Rightarrow> daily_row \<Rightarrow> py_exception + summary" where
  "daily_record self summary r =
     (let product = producto r in
      case py_int (daily_row.cantidad r) of
        Inl e \<Rightarrow> Inl e
      | Inr quantity \<Rightarrow>
     (case to_decimal (total' r) of
        Inl e \<Rightarrow> Inl e
      | Inr tot \<Rightarrow>
     (let kilos_r = (case daily_row.kilos r of
                       Missing \<Rightarrow> PInt (quantity * 15) | PyNone \<Rightarrow> PNone | Val v \<Rightarrow> v);
          unit_r = (case PRODUCT_UNIT (product_categories self) product of
                      None \<Rightarrow> ''units'' | Some u \<Rightarrow> u);
          entry = (case map_of summary product of
                     None \<Rightarrow> \<lparr>cantidad = 0, total_bruto = (0, 0), kilos = PInt 0, unit = unit_r,
                               total_neto = None, total_dolares = None, toneladas = None\<rparr>
                   | Some d \<Rightarrow> d)
      in case py_add (kilos entry) kilos_r of
           Inl e \<Rightarrow> Inl e
         | Inr k \<Rightarrow>
             Inr (dict_set product
                    (entry\<lparr>cantidad := cantidad entry + quantity,
                           total_bruto := dec_add (total_bruto entry) tot,
                           kilos := k\<rparr>)
                    summary))))"

fun daily_rows :: "processor \<Rightarrow> summary \<Rightarrow> daily_row list \<Rightarrow> py_exception + summary" where
  "daily_rows self summary [] = Inr summary"
| "daily_rows self summary (r # rs) =
     (case daily_record self summary r of
        Inl e \<Rightarrow> Inl e
      | Inr summary' \<Rightarrow> daily_rows self summary' rs)"

text \<open>The body of the second loop: the three derived values of one entry.\<close>

definition financial_metrics :: "processor \<Rightarrow> summary_entry \<Rightarrow> py_exception + summary_entry" where
  "financial_metrics self d =
     (case dec_div (total_bruto d) (iva_rate self) of
        Inl e \<Rightarrow> Inl e
      | Inr neto \<Rightarrow>
     (case dec_div (total_bruto d) (exchange_rate self) of
        Inl e \<Rightarrow> Inl e
      | Inr dolares \<Rightarrow>
     (case to_decimal (kilos d) of
        Inl e \<Rightarrow> Inl e
      | Inr k \<Rightarrow>
     (case dec_div k (1000, 0) of
        Inl e \<Rightarrow> Inl e
      | Inr tons \<Rightarrow>
          Inr (d\<lparr>total_neto := Some neto, total_dolares := Some dolares,
                 toneladas := Some tons\<rparr>)))))"

fun all_financial_metrics :: "processor \<Rightarrow> summary \<Rightarrow> py_exception + summary" where
  "all_financial_metrics self [] = Inr []"
| "all_financial_metrics self ((product, d) # rest) =
     (case financial_metrics self d of
        Inl e \<Rightarrow> Inl e
      | Inr d' \<Rightarrow>
          (case all_financial_metrics self rest of
             Inl e \<Rightarrow> Inl e
           | Inr rest' \<Rightarrow> Inr ((product, d') # rest')))"

text \<open>
  \<open>_add_category_totals\<close>: the sum over the products of a category that are in the
  summary, and the entry it adds under the category's name when the quantity is positive.
\<close>

fun category_sum :: "summary \<Rightarrow> string list \<Rightarrow> summary_entry \<Rightarrow> py_exception + summary_entry" where
  "category_sum summary [] acc = Inr acc"
| "category_sum summary (product # rest) acc =
     (case map_of summary product of
        None \<Rightarrow> category_sum summary rest acc
      | Some d \<Rightarrow>
          (case to_decimal (kilos d) of
             Inl e \<Rightarrow> Inl e
           | Inr k \<Rightarrow>
               (case py_add (kilos acc) (PDec k) of
                  Inl e \<Rightarrow> Inl e
                | Inr k' \<Rightarrow>
                    category_sum summary rest
                      (acc\<lparr>cantidad := cantidad acc + cantidad d,
                           total_bruto := dec_add (total_bruto acc) (total_bruto d),
                           kilos := k'\<rparr>))))"

definition category_total ::
  "processor \<Rightarrow> summary \<Rightarrow> string list \<Rightarrow> string \<Rightarrow> string \<Rightarrow> py_exception + summary" where
  "category_total self summary product_list unit_name key =
     (case category_sum summary product_list
             \<lparr>cantidad = 0, total_bruto = (0, 0), kilos = PDec (0, 0), unit = unit_name,
              total_neto = None, total_dolares = None, toneladas = None\<rparr> of
        Inl e \<Rightarrow> Inl e
      | Inr acc \<Rightarrow>
          if 0 < cantidad acc then
            (case dec_div (total_bruto acc) (iva_rate self) of
               Inl e \<Rightarrow> Inl e
             | Inr neto \<Rightarrow>
            (case dec_div (total_bruto acc) (exchange_rate self) of
               Inl e \<Rightarrow> Inl e
             | Inr dolares \<Rightarrow>
            (case py_div_dec (kilos acc) (1000, 0) of
               Inl e \<Rightarrow> Inl e
             | Inr tons \<Rightarrow>
                 Inr (dict_set key
                        (acc\<lparr>total_neto := Some neto, total_dolares := Some dolares,
                              toneladas := Some tons\<rparr>)
                        summary))))
          else Inr summary)"

definition add_category_totals :: "processor \<Rightarrow> summary \<Rightarrow> py_exception + summary" where
  "add_category_totals self summary =
     (case category_total self summary (PELLET_PRODUCTS (product_categories self))
             ''bolsas'' ''Total Pellet'' of
        Inl e \<Rightarrow> Inl e
      | Inr summary' \<Rightarrow>
          category_total self summary' (VACAM_PRODUCTS (product_categories self))
            ''total'' ''Total Vacam'')"

text \<open>The body of the \<open>try\<close> block, and the function: any exception gives \<open>{}\<close>.\<close>

definition daily_summary_body :: "processor \<Rightarrow> daily_row list \<Rightarrow> py_exception + summary" where
  "daily_summary_body self raw_data =
     (case daily_rows self [] raw_data of
        Inl e \<Rightarrow> Inl e
      | Inr summary \<Rightarrow>
          (case all_financial_metrics self summary of
             Inl e \<Rightarrow> Inl e
           | Inr summary' \<Rightarrow> add_category_totals self summary'))"

definition process_daily_sales_summary :: "processor \<Rightarrow> daily_row list \<Rightarrow> summary" where
  "process_daily_sales_summary self raw_data =
     (case daily_summary_body self raw_data of Inl e \<Rightarrow> [] | Inr summary \<Rightarrow> summary)"

text \<open>A processor and daily rows used as concrete inputs.\<close>

definition demo_processor :: processor where
  "demo_processor = init_processor (9450, - 1) get_fallback_categories"

definition daily_retiro :: daily_row where
  "daily_retiro = \<lparr>producto = ''Pellet Bolsa 15 Kg (Retiro)'', cantidad = PInt 10,
      total' = PDec (59900, 0), kilos = Missing\<rparr>"

definition daily_despacho :: daily_row where
  "daily_despacho = \<lparr>producto = ''Pellet Bolsa 15 Kg (Despacho)'', cantidad = PDec (40, - 1),
      total' = PInt 26000, kilos = Val (PDec (605, - 1))\<rparr>"

text \<open>
  What claim C7 says of an entry of the summary: its tons are its kilos divided by 1000 and
  its net total is its gross total divided by the IVA rate, both in the decimal context.
\<close>

definition metrics_ok :: "decimal \<Rightarrow> summary_entry \<Rightarrow> bool" where
  "metrics_ok rate d \<longleftrightarrow>
     (case to_decimal (kilos d) of
        Inl e \<Rightarrow> False
      | Inr k \<Rightarrow>
          (case dec_div k (1000, 0) of Inl e \<Rightarrow> False | Inr t \<Rightarrow> toneladas d = Some t)) \<and>
     (case dec_div (total_bruto d) rate of Inl e \<Rightarrow> False | Inr n \<Rightarrow> total_neto d = Some n)"

definition retiro_entry :: summary_entry where
  "retiro_entry =
     \<lparr>cantidad = 10, total_bruto = (59900, 0), kilos = PInt 150, unit = ''bolsas'',
      total_neto = Some (5033613445, - 5), total_dolares = Some (6338624339, - 8),
      toneladas = Some (1500000000, - 10)\<rparr>"

subsection \<open>Concrete inputs\<close>

text \<open>Databases, results and processors used as concrete inputs.\<close>

definition failing_db :: database where
  "failing_db query params = Raises DatabaseError"

definition null_db :: database where
  "null_db query params = Rows [null_row]"

definition union_db :: database where
  "union_db query params = Rows [union_row]"

definition empty_db :: database where
  "empty_db query params = Rows []"

definition union_result :: branch_data where
  "union_result =
     set_bucket LaUnion VentaDistribuidor
       \<lparr>bucket.cantidad = PDec (300, 0), bucket.toneladas = PDec (4500000000, - 9),
        bucket.total_neto = (1200000, 0), bucket.total_bruto = (1428000, 0)\<rparr> get_empty_branch_data"

definition stale_processor :: processor where
  "stale_processor =
     demo_processor
       \<lparr>data_cache :=
          (data_cache demo_processor)
            (branch_sales_key (mk_date 2024 5 1) (mk_date 2024 5 2) \<mapsto> union_result),
        last_cache_update :=
          (last_cache_update demo_processor)
            (branch_sales_key (mk_date 2024 5 1) (mk_date 2024 5 2) \<mapsto> 0)\<rparr>"

section \<open>Properties\<close>

subsection \<open>The search query\<close>

lemma date_condition_shape:
  "date_shape_of f1 = date_shape_of f2 \<Longrightarrow> fst (date_condition f1) = fst (date_condition f2)"
  by (auto simp: date_shape_of_def date_condition_def split: dictval.splits if_splits)

lemma branch_condition_shape:
  "length (get_list (branches f1)) = length (get_list (branches f2)) \<Longrightarrow>
   fst (branch_condition f1) = fst (branch_condition f2)"
  by (auto simp: branch_condition_def Let_def)

lemma doc_type_condition_shape:
  "active_length (document_types f1) = active_length (document_types f2) \<Longrightarrow>
   fst (doc_type_condition f1) = fst (doc_type_condition f2)"
  by (auto simp: doc_type_condition_def active_length_def Let_def split: if_splits)

lemma product_condition_shape:
  "active_length (products f1) = active_length (products f2) \<Longrightarrow>
   fst (product_condition f1) = fst (product_condition f2)"
  by (auto simp: product_condition_def active_length_def Let_def split: if_splits)

lemma doc_number_condition_shape:
  "doc_shape_of f1 = doc_shape_of f2 \<Longrightarrow>
   map_sum id fst (doc_number_condition f1) = map_sum id fst (doc_number_condition f2)"
  by (auto simp: doc_number_condition_def doc_shape_of_def Let_def split: dictval.splits if_splits)

lemma build_conditions_shape:
  assumes "sql_shape f1 = sql_shape f2"
  shows "map_sum id fst (build_conditions f1) = map_sum id fst (build_conditions f2)"
proof -
  have d: "fst (date_condition f1) = fst (date_condition f2)"
    using assms by (intro date_condition_shape) (simp add: sql_shape_def)
  have b: "fst (branch_condition f1) = fst (branch_condition f2)"
    using assms by (intro branch_condition_shape) (simp add: sql_shape_def)
  have t: "fst (doc_type_condition f1) = fst (doc_type_condition f2)"
    using assms by (intro doc_type_condition_shape) (simp add: sql_shape_def)
  have p: "fst (product_condition f1) = fst (product_condition f2)"
    using assms by (intro product_condition_shape) (simp add: sql_shape_def)
  have n: "map_sum id fst (doc_number_condition f1) = map_sum id fst (doc_number_condition f2)"
    using assms by (intro doc_number_condition_shape) (simp add: sql_shape_def)
  from n show ?thesis
    unfolding build_conditions_def d b t p
    by (cases "doc_number_condition f1"; cases "doc_number_condition f2") auto
qed

text \<open>
  Claim C1, as the code has it: the text of the query returned by \<open>build_search_query\<close>
  is the same for any two filter objects that agree on whether both dates are given and on
  whether they are equal, on the number of branches, on the number of document types and of
  products (counted as none when \<open>'Todo'\<close> is among them) and on whether the document
  number is \<open>None\<close>, blank or given. No other part of a filter value reaches the text.
\<close>

theorem build_search_query_text_by_shape:
  "sql_shape f1 = sql_shape f2 \<Longrightarrow> fst (build_search_query f1) = fst (build_search_query f2)"
proof -
  assume "sql_shape f1 = sql_shape f2"
  then have "map_sum id fst (build_conditions f1) = map_sum id fst (build_conditions f2)"
    by (rule build_conditions_shape)
  then show ?thesis
    unfolding build_search_query_def
    by (cases "build_conditions f1"; cases "build_conditions f2") auto
qed

theorem build_search_query_text_by_shape_witness:
  "sql_shape may_day =
     sql_shape (may_day\<lparr>branches := Val [''La Union''], document_number := Val '' ''\<rparr>) \<and>
   fst (build_search_query may_day) =
     fst (build_search_query
            (may_day\<lparr>branches := Val [''La Union''], document_number := Val '' ''\<rparr>))"
proof -
  have h: "sql_shape may_day =
      sql_shape (may_day\<lparr>branches := Val [''La Union''], document_number := Val '' ''\<rparr>)"
    by (simp add: sql_shape_def may_day_def date_shape_of_def doc_shape_of_def active_length_def
        get_list_def strip_def py_isspace_def)
  from h build_search_query_text_by_shape [OF h] show ?thesis by simp
qed

text \<open>
  Claim C1 as stated fails: two filter objects with the same filters present and the same
  list lengths, one with equal dates and one with a date range, get different query texts.
\<close>

theorem build_search_query_presence_counterexample:
  "presence_shape may_day = presence_shape (may_day\<lparr>end_date := Val (mk_date 2024 5 2)\<rparr>) \<and>
   fst (build_search_query may_day) \<noteq>
     fst (build_search_query (may_day\<lparr>end_date := Val (mk_date 2024 5 2)\<rparr>))"
  by (simp add: presence_shape_def may_day_def is_val_def build_search_query_def
      build_conditions_def doc_number_condition_def date_condition_def branch_condition_def
      doc_type_condition_def product_condition_def get_list_def mk_date_def where_clause_def
      placeholders_def strip_def)

lemma todo_doc_type:
  "''Todo'' \<in> set (get_list (document_types f)) \<Longrightarrow> doc_type_condition f = ([], [])"
  by (simp add: doc_type_condition_def Let_def)

lemma doc_type_empty: "doc_type_condition (f\<lparr>document_types := Val []\<rparr>) = ([], [])"
  by (simp add: doc_type_condition_def get_list_def)

lemma todo_product:
  "''Todo'' \<in> set (get_list (products f)) \<Longrightarrow> product_condition f = ([], [])"
  by (simp add: product_condition_def Let_def)

lemma product_empty: "product_condition (f\<lparr>products := Val []\<rparr>) = ([], [])"
  by (simp add: product_condition_def get_list_def)

lemma build_search_query_cong:
  assumes "date_condition f = date_condition g" "branch_condition f = branch_condition g"
    "doc_type_condition f = doc_type_condition g" "product_condition f = product_condition g"
    "doc_number_condition f = doc_number_condition g"
  shows "build_search_query f = build_search_query g"
  unfolding build_search_query_def build_conditions_def assms ..

lemma no_conditions:
  "build_conditions f = Inr ([], parameters) \<Longrightarrow>
   fst (build_search_query f) = base_query @ '' WHERE 1=1 ORDER BY Fecha DESC, VentaID DESC''"
  by (simp add: build_search_query_def where_clause_def)

text \<open>
  Claim C10: when \<open>'Todo'\<close> is anywhere in the document-type list, the document-type
  filter contributes no condition and no parameter, and the query and its parameters are
  those of the same filters with an empty document-type list, whatever else the list holds;
  likewise for the product list. When no condition is collected, the \<open>WHERE\<close> clause
  of the query is \<open>1=1\<close>.
\<close>

theorem build_search_query_todo:
  "(''Todo'' \<in> set (get_list (document_types f)) \<longrightarrow>
      doc_type_condition f = ([], []) \<and>
      build_search_query f = build_search_query (f\<lparr>document_types := Val []\<rparr>)) \<and>
   (''Todo'' \<in> set (get_list (products f)) \<longrightarrow>
      product_condition f = ([], []) \<and>
      build_search_query f = build_search_query (f\<lparr>products := Val []\<rparr>)) \<and>
   (\<forall>parameters. build_conditions f = Inr ([], parameters) \<longrightarrow>
      fst (build_search_query f) =
        base_query @ '' WHERE 1=1 ORDER BY Fecha DESC, VentaID DESC'')"
proof (intro conjI impI allI)
  assume t: "''Todo'' \<in> set (get_list (document_types f))"
  show "doc_type_condition f = ([], [])" using t by (rule todo_doc_type)
  show "build_search_query f = build_search_query (f\<lparr>document_types := Val []\<rparr>)"
    by (rule build_search_query_cong)
       (simp_all add: todo_doc_type[OF t] doc_type_empty date_condition_def branch_condition_def
          product_condition_def doc_number_condition_def)
next
  assume t: "''Todo'' \<in> set (get_list (products f))"
  show "product_condition f = ([], [])" using t by (rule todo_product)
  show "build_search_query f = build_search_query (f\<lparr>products := Val []\<rparr>)"
    by (rule build_search_query_cong)
       (simp_all add: todo_product[OF t] product_empty date_condition_def branch_condition_def
          doc_type_condition_def doc_number_condition_def)
next
  fix parameters assume "build_conditions f = Inr ([], parameters)"
  then show "fst (build_search_query f) =
      base_query @ '' WHERE 1=1 ORDER BY Fecha DESC, VentaID DESC''"
    by (rule no_conditions)
qed

theorem build_search_query_todo_witness:
  "''Todo'' \<in> set (get_list (document_types todo_filters)) \<and>
   ''Todo'' \<in> set (get_list (products todo_filters)) \<and>
   build_conditions todo_filters = Inr ([], []) \<and>
   doc_type_condition todo_filters = ([], []) \<and>
   product_condition todo_filters = ([], []) \<and>
   build_search_query todo_filters =
     build_search_query (todo_filters\<lparr>document_types := Val []\<rparr>) \<and>
   build_search_query todo_filters = build_search_query (todo_filters\<lparr>products := Val []\<rparr>) \<and>
   fst (build_search_query todo_filters) =
     base_query @ '' WHERE 1=1 ORDER BY Fecha DESC, VentaID DESC''"
proof -
  have t: "''Todo'' \<in> set (get_list (document_types todo_filters))"
    by (simp add: todo_filters_def get_list_def)
  have p: "''Todo'' \<in> set (get_list (products todo_filters))"
    by (simp add: todo_filters_def get_list_def)
  have c: "build_conditions todo_filters = Inr ([], [])"
    by (simp add: todo_filters_def build_conditions_def doc_number_condition_def
        date_condition_def branch_condition_def doc_type_condition_def product_condition_def
        get_list_def)
  from t p c build_search_query_todo [of todo_filters] show ?thesis by blast
qed

subsection \<open>Input validation\<close>

text \<open>
  Claim C6: for every string value and every input type, \<open>validate_input\<close> returns
  \<open>False\<close> whenever a keyword of the denylist is a substring of the upper-cased value.
\<close>

theorem validate_input_rejects_keywords:
  "keyword \<in> set dangerous_keywords \<Longrightarrow> sublist keyword (upper to_upper v) \<Longrightarrow>
   validate_input to_upper int_ok date_ok v input_type = False"
proof (cases "v = []")
  case True
  assume "keyword \<in> set dangerous_keywords" "sublist keyword (upper to_upper v)"
  with True have "[] \<in> set dangerous_keywords" by (simp add: upper_def)
  then show ?thesis by (simp add: dangerous_keywords_def)
next
  case False
  assume "keyword \<in> set dangerous_keywords" "sublist keyword (upper to_upper v)"
  with False show ?thesis
    unfolding validate_input_def by (auto simp: list_ex_iff)
qed

theorem validate_input_rejects_keywords_witness:
  "''DROP'' \<in> set dangerous_keywords \<and>
   sublist ''DROP'' (upper ascii_upper ''x; drop table t'') \<and>
   validate_input ascii_upper (\<lambda>s. True) (\<lambda>s. True) ''x; drop table t'' ''number'' = False"
proof -
  have k: "''DROP'' \<in> set dangerous_keywords" by (simp add: dangerous_keywords_def)
  have s: "sublist ''DROP'' (upper ascii_upper ''x; drop table t'')" by code_simp
  from k s validate_input_rejects_keywords [OF k s] show ?thesis by simp
qed

subsection \<open>Date-range validation\<close>

text \<open>
  Claim C5: \<open>validate_date_range\<close> returns \<open>False\<close> for every range whose start is
  after its end, whose start is before the business start date, whose end is after today or
  which spans more than 730 days, and \<open>True\<close> for every other range.
\<close>

theorem validate_date_range_iff:
  "validate_date_range today s e b \<longleftrightarrow>
     \<not> date_lt e s \<and> \<not> date_lt s b \<and> \<not> date_lt today e \<and> \<not> 730 < days_between s e"
  by (simp add: validate_date_range_def)

lemmas date_facts =
  date_lt_def days_between_def toordinal_def days_before_year_def days_before_month_def
  is_leap_def mk_date_def business_start_default_def

theorem validate_date_range_iff_witness:
  "\<not> validate_date_range (mk_date 2025 6 30) (mk_date 2024 6 2) (mk_date 2024 6 1)
       business_start_default \<and>
   \<not> validate_date_range (mk_date 2025 6 30) (mk_date 2024 3 31) (mk_date 2024 6 1)
       business_start_default \<and>
   \<not> validate_date_range (mk_date 2025 6 30) (mk_date 2024 6 1) (mk_date 2025 7 1)
       business_start_default \<and>
   \<not> validate_date_range (mk_date 2026 6 30) (mk_date 2024 4 1) (mk_date 2026 4 2)
       business_start_default \<and>
   validate_date_range (mk_date 2026 6 30) (mk_date 2024 4 1) (mk_date 2026 4 1)
     business_start_default"
proof -
  have 1: "date_lt (mk_date 2024 6 1) (mk_date 2024 6 2)" by (simp add: date_facts)
  have 2: "date_lt (mk_date 2024 3 31) business_start_default" by (simp add: date_facts)
  have 3: "date_lt (mk_date 2025 6 30) (mk_date 2025 7 1)" by (simp add: date_facts)
  have 4: "730 < days_between (mk_date 2024 4 1) (mk_date 2026 4 2)" by (simp add: date_facts)
  have 5: "\<not> date_lt (mk_date 2026 4 1) (mk_date 2024 4 1) \<and>
      \<not> date_lt (mk_date 2024 4 1) business_start_default \<and>
      \<not> date_lt (mk_date 2026 6 30) (mk_date 2026 4 1) \<and>
      \<not> 730 < days_between (mk_date 2024 4 1) (mk_date 2026 4 1)" by (simp add: date_facts)
  show ?thesis
    using 1 2 3 4 5
      validate_date_range_iff [of "mk_date 2025 6 30" "mk_date 2024 6 2" "mk_date 2024 6 1"
        business_start_default]
      validate_date_range_iff [of "mk_date 2025 6 30" "mk_date 2024 3 31" "mk_date 2024 6 1"
        business_start_default]
      validate_date_range_iff [of "mk_date 2025 6 30" "mk_date 2024 6 1" "mk_date 2025 7 1"
        business_start_default]
      validate_date_range_iff [of "mk_date 2026 6 30" "mk_date 2024 4 1" "mk_date 2026 4 2"
        business_start_default]
      validate_date_range_iff [of "mk_date 2026 6 30" "mk_date 2024 4 1" "mk_date 2026 4 1"
        business_start_default]
    by blast
qed

subsection \<open>Evaluating the decimal arithmetic and the aggregation\<close>

lemma ndigits_numeral:
  "ndigits (numeral k) = (if (numeral k :: nat) < 10 then 1 else Suc (ndigits (numeral k div 10)))"
  by (rule ndigits.simps)

lemma ndigits_0 [simp]: "ndigits 0 = 1"
  by (simp add: ndigits.simps)

lemma ndigits_1 [simp]: "ndigits (Suc 0) = 1"
  by (simp add: ndigits.simps)

lemmas dec_eval =
  dec_add_def dec_plus_def dec_fix_def dec_div_def round_half_even_def prec_def
  Let_def ndigits_numeral dec_val_def to_decimal_def py_add_def pyval_val_def

lemmas sales_eval =
  aggregate_record_def add_to_bucket_def get_bucket_def
  set_bucket_def get_empty_branch_data_def empty_structure_def empty_bucket_def

lemma fallback_keys:
  "product_key_of get_fallback_categories ''Pellet Bolsa 15 Kg (Retiro)'' = Some VentaLocal"
  "product_key_of get_fallback_categories ''Pellet Bolsa 15 Kg (Despacho)'' = Some VentaLocal"
  "product_key_of get_fallback_categories ''Pellet Bolsa 15 Kg (Distribuidor)'' =
     Some VentaDistribuidor"
  by (simp_all add: product_key_of_def get_sales_type_def get_fallback_categories_def)

lemma branch_names:
  "branch_of ''Osorno'' = Some Osorno" "branch_of La_Union = Some LaUnion"
  by (simp_all add: branch_of_def La_Union_def)


subsection \<open>Branch totals\<close>

lemma get_set_same: "get_bucket b k (set_bucket b k v bd) = v"
  by (cases b; cases k) (simp_all add: get_bucket_def set_bucket_def)

lemma get_set_other:
  "(b', k') \<noteq> (b, k) \<Longrightarrow> get_bucket b' k' (set_bucket b k v bd) = get_bucket b' k' bd"
  by (cases b; cases k; cases b'; cases k') (simp_all add: get_bucket_def set_bucket_def)

lemma to_decimal_val: "to_decimal v = Inr d \<Longrightarrow> pyval_val v = dec_val d"
  by (auto simp: to_decimal_def pyval_val_def dec_val_def split: pyval.splits)

lemma to_decimal_ok: "v \<noteq> PNone \<Longrightarrow> \<exists>d. to_decimal v = Inr d"
  by (cases v) (simp_all add: to_decimal_def)

lemma dec_div_1000: "\<exists>t. dec_div d (1000, 0) = Inr t"
  by (simp add: dec_div_def Let_def)

lemma py_add_ok: "a \<noteq> PNone \<Longrightarrow> b \<noteq> PNone \<Longrightarrow> \<exists>c. py_add a b = Inr c \<and> c \<noteq> PNone"
  by (cases a; cases b) (simp_all add: py_add_def)

lemma py_add_not_none: "py_add a b = Inr c \<Longrightarrow> c \<noteq> PNone"
  by (cases a; cases b) (auto simp: py_add_def)

lemma add_to_bucket_exact:
  assumes "add_to_bucket bk q tons neto tot = Inr v"
    and "exact_py_add (bucket.cantidad bk) q" "exact_py_add (bucket.toneladas bk) (PDec tons)"
    and "exact_dec_add (bucket.total_neto bk) neto" "exact_dec_add (bucket.total_bruto bk) tot"
  shows "field_val Cantidad v = field_val Cantidad bk + pyval_val q"
    and "field_val Toneladas v = field_val Toneladas bk + dec_val tons"
    and "field_val TotalNeto v = field_val TotalNeto bk + dec_val neto"
    and "field_val TotalBruto v = field_val TotalBruto bk + dec_val tot"
  using assms
  by (auto simp: add_to_bucket_def exact_py_add_def exact_dec_add_def field_val_def pyval_val_def
      split: sum.splits)

lemma aggregate_record_exact:
  assumes "aggregate_record cats bd r = Inr bd1" "exact_record cats bd r"
  shows "field_val fld (get_bucket b k bd1) =
         field_val fld (get_bucket b k bd) + contribution cats b k fld r"
proof (cases "product_key_of cats (Articulo r)")
  case None
  with assms show ?thesis
    by (auto simp: aggregate_record_def contribution_def split: sum.splits)
next
  case (Some k0)
  note key = Some
  show ?thesis
  proof (cases "branch_of (PuntoVenta r)")
    case None
    with assms key show ?thesis
      by (auto simp: aggregate_record_def contribution_def split: sum.splits)
  next
    case (Some b0)
    from assms(1) key Some obtain tot neto kilos tons v where
      c: "to_decimal (total_total r) = Inr tot" "to_decimal (row.total_neto r) = Inr neto"
         "to_decimal (total_kilos r) = Inr kilos" "dec_div kilos (1000, 0) = Inr tons"
         "add_to_bucket (get_bucket b0 k0 bd) (total_cantidad r) tons neto tot = Inr v"
         "bd1 = set_bucket b0 k0 v bd"
      by (auto simp: aggregate_record_def split: sum.splits)
    from assms(2) key Some c have
      e: "exact_py_add (bucket.cantidad (get_bucket b0 k0 bd)) (total_cantidad r)"
         "exact_py_add (bucket.toneladas (get_bucket b0 k0 bd)) (PDec tons)"
         "exact_dec_add (bucket.total_neto (get_bucket b0 k0 bd)) neto"
         "exact_dec_add (bucket.total_bruto (get_bucket b0 k0 bd)) tot"
      by (simp_all add: exact_record_def)
    note s = add_to_bucket_exact [OF c(5) e]
    show ?thesis
    proof (cases "(b, k) = (b0, k0)")
      case True
      have "row_field fld r =
          (case fld of Cantidad \<Rightarrow> pyval_val (total_cantidad r) | Toneladas \<Rightarrow> dec_val tons
           | TotalNeto \<Rightarrow> dec_val neto | TotalBruto \<Rightarrow> dec_val tot)"
        using c by (cases fld) (simp_all add: row_field_def row_tons_def to_decimal_val)
      with True key Some c(6) s show ?thesis
        by (cases fld) (simp_all add: contribution_def get_set_same)
    next
      case False
      with key Some c(6) show ?thesis
        by (auto simp: contribution_def get_set_other)
    qed
  qed
qed

lemma aggregate_rows_exact:
  "aggregate_rows cats bd rs = Inr bd' \<Longrightarrow> exact_rows cats bd rs \<Longrightarrow>
   field_val fld (get_bucket b k bd') =
     field_val fld (get_bucket b k bd) + sum_list (map (contribution cats b k fld) rs)"
proof (induction rs arbitrary: bd)
  case Nil
  then show ?case by simp
next
  case (Cons r rs)
  from Cons.prems(1) obtain bd1 where
    1: "aggregate_record cats bd r = Inr bd1" and 2: "aggregate_rows cats bd1 rs = Inr bd'"
    by (auto split: sum.splits)
  from Cons.prems(2) 1 have 3: "exact_record cats bd r" and 4: "exact_rows cats bd1 rs"
    by simp_all
  from Cons.IH [OF 2 4] aggregate_record_exact [OF 1 3] show ?case
    by simp
qed

text \<open>The loop body returns on a well-formed row, and keeps the accumulators numbers.\<close>

lemma bd_ok_bucket:
  "bd_ok bd \<Longrightarrow>
   bucket.cantidad (get_bucket b k bd) \<noteq> PNone \<and> bucket.toneladas (get_bucket b k bd) \<noteq> PNone"
  by (cases b; cases k) (simp_all add: bd_ok_def)

lemma bd_ok_set_bucket:
  assumes "bd_ok bd" "bucket.cantidad v \<noteq> PNone" "bucket.toneladas v \<noteq> PNone"
  shows "bd_ok (set_bucket b k v bd)"
proof -
  have "bucket.cantidad (get_bucket b' k' (set_bucket b k v bd)) \<noteq> PNone \<and>
        bucket.toneladas (get_bucket b' k' (set_bucket b k v bd)) \<noteq> PNone" for b' k'
    using assms bd_ok_bucket [OF assms(1), of b' k']
    by (cases "(b', k') = (b, k)") (auto simp: get_set_same get_set_other)
  then show ?thesis
    by (simp add: bd_ok_def)
qed

lemma add_to_bucket_ok:
  assumes "bucket.cantidad bk \<noteq> PNone" "bucket.toneladas bk \<noteq> PNone" "q \<noteq> PNone"
  shows "\<exists>v. add_to_bucket bk q tons neto tot = Inr v \<and>
             bucket.cantidad v \<noteq> PNone \<and> bucket.toneladas v \<noteq> PNone"
proof -
  from py_add_ok [OF assms(1,3)] obtain c where
    c: "py_add (bucket.cantidad bk) q = Inr c" "c \<noteq> PNone" by blast
  from py_add_ok [OF assms(2), of "PDec tons"] obtain t where
    t: "py_add (bucket.toneladas bk) (PDec tons) = Inr t" "t \<noteq> PNone" by auto
  from c t show ?thesis
    by (simp add: add_to_bucket_def)
qed

lemma aggregate_record_ok:
  assumes "row_ok cats r" "bd_ok bd"
  shows "\<exists>bd'. aggregate_record cats bd r = Inr bd' \<and> bd_ok bd'"
proof -
  from assms(1) obtain tot neto kilos where
    c: "to_decimal (total_total r) = Inr tot" "to_decimal (row.total_neto r) = Inr neto"
       "to_decimal (total_kilos r) = Inr kilos"
    unfolding row_ok_def by (meson to_decimal_ok)
  obtain tons where t: "dec_div kilos (1000, 0) = Inr tons"
    using dec_div_1000 by blast
  show ?thesis
  proof (cases "product_key_of cats (Articulo r)")
    case None
    with c t assms(2) show ?thesis by (simp add: aggregate_record_def)
  next
    case (Some k)
    note key = Some
    show ?thesis
    proof (cases "branch_of (PuntoVenta r)")
      case None
      with c t key assms(2) show ?thesis by (simp add: aggregate_record_def)
    next
      case (Some b)
      with key assms(1) have q: "total_cantidad r \<noteq> PNone"
        by (simp add: row_ok_def)
      from bd_ok_bucket [OF assms(2), of b k] add_to_bucket_ok [OF _ _ q] obtain v where
        v: "add_to_bucket (get_bucket b k bd) (total_cantidad r) tons neto tot = Inr v"
           "bucket.cantidad v \<noteq> PNone" "bucket.toneladas v \<noteq> PNone"
        by blast
      from c t key Some v bd_ok_set_bucket [OF assms(2) v(2,3)] show ?thesis
        by (simp add: aggregate_record_def)
    qed
  qed
qed

lemma aggregate_rows_ok:
  "\<forall>r\<in>set rs. row_ok cats r \<Longrightarrow> bd_ok bd \<Longrightarrow> \<exists>bd'. aggregate_rows cats bd rs = Inr bd'"
proof (induction rs arbitrary: bd)
  case Nil
  then show ?case by simp
next
  case (Cons r rs)
  from Cons.prems aggregate_record_ok [of cats r bd] obtain bd1 where
    1: "aggregate_record cats bd r = Inr bd1" "bd_ok bd1" by auto
  from Cons.IH [OF _ 1(2)] Cons.prems(1) obtain bd' where
    "aggregate_rows cats bd1 rs = Inr bd'" by auto
  with 1 show ?case by simp
qed

lemma empty_bd_ok: "bd_ok get_empty_branch_data"
  by (simp add: bd_ok_def get_bucket_def get_empty_branch_data_def empty_structure_def
      empty_bucket_def)

lemma empty_field_val: "field_val fld (get_bucket b k get_empty_branch_data) = 0"
  by (cases b; cases k; cases fld)
     (simp_all add: field_val_def get_bucket_def get_empty_branch_data_def empty_structure_def
        empty_bucket_def pyval_val_def dec_val_def)

lemma sum_list_mset_eq:
  fixes f :: "'a \<Rightarrow> rat"
  shows "mset xs = mset ys \<Longrightarrow> sum_list (map f xs) = sum_list (map f ys)"
  by (metis mset_map sum_mset_sum_list)

lemma process_exact_sums:
  assumes "\<forall>r\<in>set rs. row_ok cats r" "exact_rows cats get_empty_branch_data rs"
  shows "result_field fld b k (process_branch_sales_data cats rs) =
         Some (sum_list (map (contribution cats b k fld) rs))"
proof -
  from aggregate_rows_ok [OF assms(1) empty_bd_ok] obtain bd where
    bd: "aggregate_rows cats get_empty_branch_data rs = Inr bd" by blast
  from aggregate_rows_exact [OF bd assms(2), of fld b k] bd show ?thesis
    by (simp add: result_field_def process_branch_sales_data_def empty_field_val)
qed

text \<open>
  Claim C3, as the code has it: when every row is well formed and no addition of the loop
  is rounded by the ten-digit context, \<open>_process_branch_sales_data\<close> returns, each total of
  each branch and sales type is the sum of the rows' contributions (quantity, kilos divided by
  1000, net and gross amount of the rows of that branch and sales type), and every permutation
  of the rows whose additions are not rounded either gives the same totals.
\<close>

theorem process_branch_sales_data_sums:
  assumes "\<forall>r\<in>set rs. row_ok cats r" "exact_rows cats get_empty_branch_data rs"
  shows "(\<forall>b k fld. result_field fld b k (process_branch_sales_data cats rs) =
            Some (sum_list (map (contribution cats b k fld) rs))) \<and>
         (\<forall>rs'. mset rs' = mset rs \<and> exact_rows cats get_empty_branch_data rs' \<longrightarrow>
            (\<forall>b k fld. result_field fld b k (process_branch_sales_data cats rs') =
                        result_field fld b k (process_branch_sales_data cats rs)))"
proof (intro conjI allI impI)
  fix b k fld
  show "result_field fld b k (process_branch_sales_data cats rs) =
        Some (sum_list (map (contribution cats b k fld) rs))"
    using assms by (rule process_exact_sums)
next
  fix rs' b k fld
  assume a: "mset rs' = mset rs \<and> exact_rows cats get_empty_branch_data rs'"
  then have "set rs' = set rs" by (metis set_mset_mset)
  with assms(1) have ok: "\<forall>r\<in>set rs'. row_ok cats r" by simp
  have "result_field fld b k (process_branch_sales_data cats rs') =
        Some (sum_list (map (contribution cats b k fld) rs'))"
    using ok a by (intro process_exact_sums) simp_all
  also have "sum_list (map (contribution cats b k fld) rs') =
             sum_list (map (contribution cats b k fld) rs)"
    using a by (intro sum_list_mset_eq) simp
  also have "Some (sum_list (map (contribution cats b k fld) rs)) =
             result_field fld b k (process_branch_sales_data cats rs)"
    using assms by (rule process_exact_sums [symmetric])
  finally show "result_field fld b k (process_branch_sales_data cats rs') =
                result_field fld b k (process_branch_sales_data cats rs)" .
qed

text \<open>The fields of the bucket a row is added to, and the buckets it leaves alone.\<close>

lemma aggregate_record_bucket:
  assumes "aggregate_record cats bd r = Inr bd'"
    and "branch_of (PuntoVenta r) = Some b" "product_key_of cats (Articulo r) = Some k"
  shows "\<exists>tot neto kilos tons.
     to_decimal (total_total r) = Inr tot \<and> to_decimal (row.total_neto r) = Inr neto \<and>
     to_decimal (total_kilos r) = Inr kilos \<and> dec_div kilos (1000, 0) = Inr tons \<and>
     py_add (bucket.cantidad (get_bucket b k bd)) (total_cantidad r) =
       Inr (bucket.cantidad (get_bucket b k bd')) \<and>
     py_add (bucket.toneladas (get_bucket b k bd)) (PDec tons) =
       Inr (bucket.toneladas (get_bucket b k bd')) \<and>
     bucket.total_neto (get_bucket b k bd') = dec_add (bucket.total_neto (get_bucket b k bd)) neto \<and>
     bucket.total_bruto (get_bucket b k bd') = dec_add (bucket.total_bruto (get_bucket b k bd)) tot"
  using assms
  by (auto simp: aggregate_record_def add_to_bucket_def get_set_same split: sum.splits)

lemma aggregate_record_other:
  assumes "aggregate_record cats bd r = Inr bd'"
    and "(branch_of (PuntoVenta r), product_key_of cats (Articulo r)) \<noteq> (Some b, Some k)"
  shows "get_bucket b k bd' = get_bucket b k bd"
  using assms
  by (auto simp: aggregate_record_def get_set_other split: sum.splits option.splits)


lemma two_rows_total_bruto:
  assumes ok: "row_ok cats r1" "row_ok cats r2"
    and b: "branch_of (PuntoVenta r1) = Some b" "branch_of (PuntoVenta r2) = Some b"
    and k: "product_key_of cats (Articulo r1) = Some k" "product_key_of cats (Articulo r2) = Some k"
    and t: "to_decimal (total_total r1) = Inr t1" "to_decimal (total_total r2) = Inr t2"
  shows "result_field TotalBruto b k (process_branch_sales_data cats [r1, r2]) =
         Some (dec_val (dec_add (dec_add (0, 0) t1) t2))"
proof -
  from aggregate_record_ok [OF ok(1) empty_bd_ok] obtain bd1 where
    1: "aggregate_record cats get_empty_branch_data r1 = Inr bd1" "bd_ok bd1" by blast
  from aggregate_record_ok [OF ok(2) 1(2)] obtain bd2 where
    2: "aggregate_record cats bd1 r2 = Inr bd2" by blast
  have e: "bucket.total_bruto (get_bucket b k get_empty_branch_data) = (0, 0)"
    by (cases b; cases k)
       (simp_all add: get_bucket_def get_empty_branch_data_def empty_structure_def
          empty_bucket_def)
  from aggregate_record_bucket [OF 1(1) b(1) k(1)] t(1) e
  have "bucket.total_bruto (get_bucket b k bd1) = dec_add (0, 0) t1" by auto
  with aggregate_record_bucket [OF 2 b(2) k(2)] t(2)
  have "bucket.total_bruto (get_bucket b k bd2) = dec_add (dec_add (0, 0) t1) t2" by auto
  with 1 2 show ?thesis
    by (simp add: process_branch_sales_data_def result_field_def field_val_def)
qed

lemmas row_eval = big_row_def small_row_def union_row_def null_row_def fallback_keys branch_names

text \<open>
  Claim C3 as stated fails: the two orders of the same two rows of one branch and sales
  type give the gross totals 12345678900 and 12345678910, and only the second is the sum of
  the two gross amounts.
\<close>

theorem process_branch_sales_data_order_counterexample:
  "mset [small_row, big_row] = mset [big_row, small_row] \<and>
   result_field TotalBruto Osorno VentaLocal
     (process_branch_sales_data get_fallback_categories [big_row, small_row]) = Some 12345678900 \<and>
   result_field TotalBruto Osorno VentaLocal
     (process_branch_sales_data get_fallback_categories [small_row, big_row]) = Some 12345678910 \<and>
   sum_list (map (contribution get_fallback_categories Osorno VentaLocal TotalBruto)
     [big_row, small_row]) = 12345678910"
proof -
  have ok: "row_ok get_fallback_categories big_row" "row_ok get_fallback_categories small_row"
    by (simp_all add: row_ok_def row_eval)
  have b: "branch_of (PuntoVenta big_row) = Some Osorno"
      "branch_of (PuntoVenta small_row) = Some Osorno"
    by (simp_all add: row_eval)
  have k: "product_key_of get_fallback_categories (Articulo big_row) = Some VentaLocal"
      "product_key_of get_fallback_categories (Articulo small_row) = Some VentaLocal"
    by (simp_all add: row_eval)
  have t: "to_decimal (total_total big_row) = Inr (12345678905, 0)"
      "to_decimal (total_total small_row) = Inr (5, 0)"
    by (simp_all add: row_eval to_decimal_def)
  have a1: "dec_val (dec_add (dec_add (0, 0) (12345678905, 0)) (5, 0)) = 12345678900"
    by (simp add: dec_eval)
  have a2: "dec_val (dec_add (dec_add (0, 0) (5, 0)) (12345678905, 0)) = 12345678910"
    by (simp add: dec_eval)
  have s: "sum_list (map (contribution get_fallback_categories Osorno VentaLocal TotalBruto)
     [big_row, small_row]) = 12345678910"
    by (simp add: contribution_def row_field_def pyval_val_def dec_val_def row_eval)
  from two_rows_total_bruto [OF ok(1) ok(2) b(1) b(2) k(1) k(2) t(1) t(2)]
    two_rows_total_bruto [OF ok(2) ok(1) b(2) b(1) k(2) k(1) t(2) t(1)] a1 a2 s
  show ?thesis by (simp add: add.commute)
qed

theorem process_branch_sales_data_sums_witness:
  "row_ok get_fallback_categories small_row \<and> row_ok get_fallback_categories union_row \<and>
   exact_rows get_fallback_categories get_empty_branch_data [small_row, union_row] \<and>
   mset [union_row, small_row] = mset [small_row, union_row] \<and>
   exact_rows get_fallback_categories get_empty_branch_data [union_row, small_row] \<and>
   result_field TotalBruto LaUnion VentaDistribuidor
     (process_branch_sales_data get_fallback_categories [small_row, union_row]) =
     Some (sum_list (map (contribution get_fallback_categories LaUnion VentaDistribuidor TotalBruto)
       [small_row, union_row])) \<and>
   result_field TotalBruto LaUnion VentaDistribuidor
     (process_branch_sales_data get_fallback_categories [union_row, small_row]) =
   result_field TotalBruto LaUnion VentaDistribuidor
     (process_branch_sales_data get_fallback_categories [small_row, union_row])"
proof -
  have ok: "\<forall>r\<in>set [small_row, union_row]. row_ok get_fallback_categories r"
    by (simp add: row_ok_def row_eval)
  have e1: "exact_rows get_fallback_categories get_empty_branch_data [small_row, union_row]"
    by (simp add: exact_record_def exact_py_add_def exact_dec_add_def row_eval sales_eval dec_eval)
  have e2: "exact_rows get_fallback_categories get_empty_branch_data [union_row, small_row]"
    by (simp add: exact_record_def exact_py_add_def exact_dec_add_def row_eval sales_eval dec_eval)
  have m: "mset [union_row, small_row] = mset [small_row, union_row]"
    by (simp add: add.commute)
  from process_branch_sales_data_sums [OF ok e1] ok e1 e2 m show ?thesis
    by simp
qed

subsection \<open>The daily summary\<close>

lemma financial_metrics_ok:
  "financial_metrics self d = Inr d' \<Longrightarrow> metrics_ok (iva_rate self) d'"
  by (auto simp: financial_metrics_def metrics_ok_def split: sum.splits)

lemma all_financial_metrics_ok:
  "all_financial_metrics self s = Inr s' \<Longrightarrow> \<forall>(p, d)\<in>set s'. metrics_ok (iva_rate self) d"
proof (induction s arbitrary: s')
  case Nil
  then show ?case by simp
next
  case (Cons a s)
  obtain p d where a: "a = (p, d)" by (cases a)
  from Cons.prems a obtain d' rest' where
    1: "financial_metrics self d = Inr d'" "all_financial_metrics self s = Inr rest'"
       "s' = (p, d') # rest'"
    by (auto split: sum.splits)
  from Cons.IH [OF 1(2)] financial_metrics_ok [OF 1(1)] 1(3) show ?case by simp
qed

lemma set_dict_set: "set (dict_set k v xs) \<subseteq> insert (k, v) (set xs)"
  by (induction xs) (auto split: if_splits)

lemma py_div_dec_to_decimal:
  "py_div_dec v d = Inr t \<Longrightarrow> \<exists>k. to_decimal v = Inr k \<and> dec_div k d = Inr t"
  by (cases v) (simp_all add: py_div_dec_def to_decimal_def)

lemma category_total_ok:
  assumes "category_total self s ps u key = Inr s'"
    and "\<forall>(p, d)\<in>set s. metrics_ok (iva_rate self) d"
  shows "\<forall>(p, d)\<in>set s'. metrics_ok (iva_rate self) d"
proof -
  from assms(1) obtain acc where
    acc: "category_sum s ps \<lparr>cantidad = 0, total_bruto = (0, 0), kilos = PDec (0, 0), unit = u,
              total_neto = None, total_dolares = None, toneladas = None\<rparr> = Inr acc"
    by (auto simp: category_total_def split: sum.splits)
  show ?thesis
  proof (cases "0 < summary_entry.cantidad acc")
    case False
    with assms acc show ?thesis by (simp add: category_total_def)
  next
    case True
    with assms(1) acc obtain neto dolares tons where
      m: "dec_div (total_bruto acc) (iva_rate self) = Inr neto"
         "py_div_dec (summary_entry.kilos acc) (1000, 0) = Inr tons"
         "s' = dict_set key (acc\<lparr>total_neto := Some neto, total_dolares := Some dolares,
                              toneladas := Some tons\<rparr>) s"
      by (auto simp: category_total_def split: sum.splits)
    have "metrics_ok (iva_rate self) (acc\<lparr>total_neto := Some neto, total_dolares := Some dolares,
                              toneladas := Some tons\<rparr>)"
      using m(1) py_div_dec_to_decimal [OF m(2)] by (auto simp: metrics_ok_def)
    with assms(2) m(3) set_dict_set show ?thesis by fastforce
  qed
qed

lemma add_category_totals_ok:
  assumes "add_category_totals self s = Inr s'"
    and "\<forall>(p, d)\<in>set s. metrics_ok (iva_rate self) d"
  shows "\<forall>(p, d)\<in>set s'. metrics_ok (iva_rate self) d"
proof -
  from assms(1) obtain s1 where
    1: "category_total self s (PELLET_PRODUCTS (product_categories self)) ''bolsas''
          ''Total Pellet'' = Inr s1"
    and 2: "category_total self s1 (VACAM_PRODUCTS (product_categories self)) ''total''
          ''Total Vacam'' = Inr s'"
    by (auto simp: add_category_totals_def split: sum.splits)
  from category_total_ok [OF 2 category_total_ok [OF 1 assms(2)]] show ?thesis .
qed

lemma process_daily_sales_summary_ok:
  "\<forall>(p, d)\<in>set (process_daily_sales_summary self raw_data). metrics_ok (iva_rate self) d"
proof (cases "daily_summary_body self raw_data")
  case (Inl e)
  then show ?thesis by (simp add: process_daily_sales_summary_def)
next
  case (Inr s')
  then obtain s0 s1 where
    1: "all_financial_metrics self s0 = Inr s1" and 2: "add_category_totals self s1 = Inr s'"
    by (auto simp: daily_summary_body_def split: sum.splits)
  from add_category_totals_ok [OF 2 all_financial_metrics_ok [OF 1]] Inr show ?thesis
    by (simp add: process_daily_sales_summary_def)
qed

lemmas daily_eval =
  process_daily_sales_summary_def daily_summary_body_def daily_record_def financial_metrics_def
  add_category_totals_def category_total_def py_int_def py_div_dec_def demo_processor_def
  init_processor_def get_fallback_categories_def daily_retiro_def retiro_entry_def

lemma daily_summary_retiro: "process_daily_sales_summary demo_processor [daily_retiro] =
   [(''Pellet Bolsa 15 Kg (Retiro)'', retiro_entry),
    (''Total Pellet'', retiro_entry\<lparr>kilos := PDec (150, 0)\<rparr>)]"
  by (simp add: daily_eval dec_eval)

text \<open>
  Claim C7: in the summary returned by \<open>process_daily_sales_summary\<close>, the tons of every
  entry are its accumulated kilos divided by 1000 and its net total is its accumulated gross
  total divided by 1.19, both divisions in the decimal context; and in the aggregation loop of
  \<open>_process_branch_sales_data\<close> a row adds its kilos divided by 1000 to the tons of the
  bucket of its branch and sales type.
\<close>

theorem daily_summary_metrics:
  "(iva_rate self = (119, - 2) \<longrightarrow>
      (\<forall>(product, d)\<in>set (process_daily_sales_summary self raw_data).
         \<exists>k t n. to_decimal (summary_entry.kilos d) = Inr k \<and> dec_div k (1000, 0) = Inr t \<and>
                 summary_entry.toneladas d = Some t \<and>
                 dec_div (summary_entry.total_bruto d) (119, - 2) = Inr n \<and>
                 summary_entry.total_neto d = Some n)) \<and>
   (aggregate_record cats bd r = Inr bd' \<and> branch_of (PuntoVenta r) = Some b \<and>
    product_key_of cats (Articulo r) = Some k' \<longrightarrow>
      (\<exists>kilos tons. to_decimal (total_kilos r) = Inr kilos \<and> dec_div kilos (1000, 0) = Inr tons \<and>
         py_add (bucket.toneladas (get_bucket b k' bd)) (PDec tons) =
           Inr (bucket.toneladas (get_bucket b k' bd'))))"
proof (intro conjI impI)
  assume iva: "iva_rate self = (119, - 2)"
  show "\<forall>(product, d)\<in>set (process_daily_sales_summary self raw_data).
         \<exists>k t n. to_decimal (summary_entry.kilos d) = Inr k \<and> dec_div k (1000, 0) = Inr t \<and>
                 summary_entry.toneladas d = Some t \<and>
                 dec_div (summary_entry.total_bruto d) (119, - 2) = Inr n \<and>
                 summary_entry.total_neto d = Some n"
  proof (clarify)
    fix product d
    assume "(product, d) \<in> set (process_daily_sales_summary self raw_data)"
    with process_daily_sales_summary_ok [of self raw_data] iva
    have "metrics_ok (119, - 2) d" by auto
    then show "\<exists>k t n. to_decimal (summary_entry.kilos d) = Inr k \<and> dec_div k (1000, 0) = Inr t \<and>
                 summary_entry.toneladas d = Some t \<and>
                 dec_div (summary_entry.total_bruto d) (119, - 2) = Inr n \<and>
                 summary_entry.total_neto d = Some n"
      by (auto simp: metrics_ok_def split: sum.splits)
  qed
next
  assume "aggregate_record cats bd r = Inr bd' \<and> branch_of (PuntoVenta r) = Some b \<and>
    product_key_of cats (Articulo r) = Some k'"
  then show "\<exists>kilos tons. to_decimal (total_kilos r) = Inr kilos \<and> dec_div kilos (1000, 0) = Inr tons \<and>
         py_add (bucket.toneladas (get_bucket b k' bd)) (PDec tons) =
           Inr (bucket.toneladas (get_bucket b k' bd'))"
    using aggregate_record_bucket [of cats bd r bd' b k'] by blast
qed

theorem daily_summary_metrics_witness:
  "iva_rate demo_processor = (119, - 2) \<and>
   (''Pellet Bolsa 15 Kg (Retiro)'', retiro_entry)
     \<in> set (process_daily_sales_summary demo_processor [daily_retiro]) \<and>
   (\<exists>k t n. to_decimal (summary_entry.kilos retiro_entry) = Inr k \<and>
      dec_div k (1000, 0) = Inr t \<and> summary_entry.toneladas retiro_entry = Some t \<and>
      dec_div (summary_entry.total_bruto retiro_entry) (119, - 2) = Inr n \<and>
      summary_entry.total_neto retiro_entry = Some n) \<and>
   summary_entry.toneladas retiro_entry = Some (1500000000, - 10) \<and>
   summary_entry.total_neto retiro_entry = Some (5033613445, - 5) \<and>
   aggregate_record get_fallback_categories get_empty_branch_data small_row = Inr small_state \<and>
   branch_of (PuntoVenta small_row) = Some Osorno \<and>
   product_key_of get_fallback_categories (Articulo small_row) = Some VentaLocal \<and>
   (\<exists>kilos tons. to_decimal (total_kilos small_row) = Inr kilos \<and>
      dec_div kilos (1000, 0) = Inr tons \<and>
      py_add (bucket.toneladas (get_bucket Osorno VentaLocal get_empty_branch_data)) (PDec tons) =
        Inr (bucket.toneladas (get_bucket Osorno VentaLocal small_state)))"
proof -
  have iva: "iva_rate demo_processor = (119, - 2)"
    by (simp add: demo_processor_def init_processor_def)
  have mem: "(''Pellet Bolsa 15 Kg (Retiro)'', retiro_entry)
      \<in> set (process_daily_sales_summary demo_processor [daily_retiro])"
    by (simp add: daily_summary_retiro)
  have c: "\<exists>k t n. to_decimal (summary_entry.kilos retiro_entry) = Inr k \<and>
      dec_div k (1000, 0) = Inr t \<and> summary_entry.toneladas retiro_entry = Some t \<and>
      dec_div (summary_entry.total_bruto retiro_entry) (119, - 2) = Inr n \<and>
      summary_entry.total_neto retiro_entry = Some n"
    using daily_summary_metrics [of demo_processor "[daily_retiro]"] iva mem by blast
  have v: "summary_entry.toneladas retiro_entry = Some (1500000000, - 10)"
      "summary_entry.total_neto retiro_entry = Some (5033613445, - 5)"
    by (simp_all add: retiro_entry_def)
  have a: "aggregate_record get_fallback_categories get_empty_branch_data small_row =
      Inr small_state"
    by (simp add: small_state_def aggregate_record_def small_row_def fallback_keys branch_names
        add_to_bucket_def get_bucket_def get_empty_branch_data_def empty_structure_def
        empty_bucket_def dec_eval)
  have b: "branch_of (PuntoVenta small_row) = Some Osorno"
    by (simp add: small_row_def branch_names)
  have k: "product_key_of get_fallback_categories (Articulo small_row) = Some VentaLocal"
    by (simp add: small_row_def fallback_keys)
  have t: "\<exists>kilos tons. to_decimal (total_kilos small_row) = Inr kilos \<and>
      dec_div kilos (1000, 0) = Inr tons \<and>
      py_add (bucket.toneladas (get_bucket Osorno VentaLocal get_empty_branch_data)) (PDec tons) =
        Inr (bucket.toneladas (get_bucket Osorno VentaLocal small_state))"
    using daily_summary_metrics [of demo_processor "[daily_retiro]" get_fallback_categories
        get_empty_branch_data small_row small_state Osorno VentaLocal] a b k
    by blast
  show ?thesis
    by (intro conjI) (rule iva mem c v a b k t)+
qed

subsection \<open>Queries and the cache\<close>

lemma execute_query_returns: "\<exists>results. execute_query db query params = Inr results"
  by (simp add: execute_query_def split: sum.splits)

lemma is_cache_valid_cached: "is_cache_valid self now key \<Longrightarrow> \<exists>v. data_cache self key = Some v"
  by (auto simp: is_cache_valid_def split: option.splits)

text \<open>
  Claim C8: whenever the execution of a query raises, \<open>_execute_query\<close> returns the empty
  list, and it always returns; whenever a step of the \<open>try\<close> block of
  \<open>get_sales_by_branch_data\<close> raises, the function returns the all-zero branch structure
  and leaves the processor as it was, and it always returns: no exception reaches the caller
  of either function.
\<close>

theorem no_exception_escapes:
  "(db query params = Raises e \<longrightarrow> execute_query db query params = Inr []) \<and>
   (\<exists>results. execute_query db query params = Inr results) \<and>
   (\<not> is_cache_valid self now (branch_sales_key s e') \<and>
    branch_sales_body self db now_store s e' = Inl ex \<longrightarrow>
      get_sales_by_branch_data self db now now_store s e' = Inr (get_empty_branch_data, self)) \<and>
   (\<exists>result. get_sales_by_branch_data self db now now_store s e' = Inr result)"
proof (intro conjI impI)
  assume "db query params = Raises e"
  then show "execute_query db query params = Inr []"
    by (simp add: execute_query_def execute_query_body_def)
next
  show "\<exists>results. execute_query db query params = Inr results"
    by (rule execute_query_returns)
next
  assume "\<not> is_cache_valid self now (branch_sales_key s e') \<and>
    branch_sales_body self db now_store s e' = Inl ex"
  then show "get_sales_by_branch_data self db now now_store s e' = Inr (get_empty_branch_data, self)"
    by (simp add: get_sales_by_branch_data_def)
next
  show "\<exists>result. get_sales_by_branch_data self db now now_store s e' = Inr result"
  proof (cases "is_cache_valid self now (branch_sales_key s e')")
    case True
    with is_cache_valid_cached [OF True] show ?thesis
      by (auto simp: get_sales_by_branch_data_def)
  next
    case False
    then show ?thesis
      by (cases "branch_sales_body self db now_store s e'")
         (simp_all add: get_sales_by_branch_data_def)
  qed
qed

lemma null_row_raises:
  "process_branch_sales_data cats [null_row] = Inl InvalidOperation"
  by (simp add: process_branch_sales_data_def aggregate_record_def null_row_def to_decimal_def)

lemma demo_cache_empty: "\<not> is_cache_valid demo_processor now key"
  by (simp add: is_cache_valid_def demo_processor_def init_processor_def)


lemma null_body_raises:
  "branch_sales_body demo_processor null_db 0 (mk_date 2024 5 1) (mk_date 2024 5 2) =
     Inl InvalidOperation"
  by (simp add: branch_sales_body_def Let_def execute_query_def execute_query_body_def
      null_db_def null_row_raises)

theorem no_exception_escapes_witness:
  "failing_db monthly_query [] = Raises DatabaseError \<and>
   execute_query failing_db monthly_query [] = Inr [] \<and>
   \<not> is_cache_valid demo_processor 0 (branch_sales_key (mk_date 2024 5 1) (mk_date 2024 5 2)) \<and>
   branch_sales_body demo_processor null_db 0 (mk_date 2024 5 1) (mk_date 2024 5 2) =
     Inl InvalidOperation \<and>
   get_sales_by_branch_data demo_processor null_db 0 0 (mk_date 2024 5 1) (mk_date 2024 5 2) =
     Inr (get_empty_branch_data, demo_processor)"
proof -
  have r: "failing_db monthly_query [] = Raises DatabaseError"
    by (simp add: failing_db_def)
  have c: "\<not> is_cache_valid demo_processor 0
      (branch_sales_key (mk_date 2024 5 1) (mk_date 2024 5 2))"
    by (rule demo_cache_empty)
  note n = null_body_raises
  from no_exception_escapes [of failing_db monthly_query "[]" DatabaseError demo_processor 0
      "mk_date 2024 5 1" "mk_date 2024 5 2" 0 InvalidOperation] r
  have 1: "execute_query failing_db monthly_query [] = Inr []" by blast
  from no_exception_escapes [of null_db monthly_query "[]" DatabaseError demo_processor 0
      "mk_date 2024 5 1" "mk_date 2024 5 2" 0 InvalidOperation] c n
  have 2: "get_sales_by_branch_data demo_processor null_db 0 0 (mk_date 2024 5 1)
      (mk_date 2024 5 2) = Inr (get_empty_branch_data, demo_processor)" by blast
  show ?thesis
    by (intro conjI) (rule r 1 c n 2)+
qed

lemma union_row_result:
  "process_branch_sales_data get_fallback_categories [union_row] = Inr union_result"
  by (simp add: process_branch_sales_data_def union_result_def aggregate_record_def
      union_row_def fallback_keys branch_names add_to_bucket_def get_bucket_def
      get_empty_branch_data_def empty_structure_def empty_bucket_def dec_eval)

lemma union_result_not_empty: "union_result \<noteq> get_empty_branch_data"
  by (simp add: union_result_def set_bucket_def get_empty_branch_data_def empty_structure_def
      empty_bucket_def)

lemma is_cache_valid_iff:
  "is_cache_valid self now key \<longleftrightarrow>
     (\<exists>v stored. data_cache self key = Some v \<and> last_cache_update self key = Some stored \<and>
        ((now - stored) mod 86400000000) div 1000000 < cache_timeout self)"
  by (auto simp: is_cache_valid_def timedelta_seconds_def split: option.splits)

text \<open>
  Claim C4 against the code: an entry stored at time 0 for the dates 2024-05-01 and 2024-05-02
  is served again at time 86400 s, one day after it was stored and long after the 300 s of
  the time-to-live, although the database now holds no row and a recomputation would give
  the all-zero structure. The test reads \<open>timedelta.seconds\<close>, which is 0 here, where the
  elapsed time is \<open>timedelta.total_seconds()\<close>.
\<close>

theorem stale_entry_served_after_one_day:
  "get_sales_by_branch_data demo_processor union_db 0 0 (mk_date 2024 5 1) (mk_date 2024 5 2) =
     Inr (union_result, stale_processor) \<and>
   cache_timeout stale_processor * 1000000 \<le> 86400000000 - 0 \<and>
   get_sales_by_branch_data stale_processor empty_db 86400000000 86400000000
     (mk_date 2024 5 1) (mk_date 2024 5 2) = Inr (union_result, stale_processor) \<and>
   process_branch_sales_data (product_categories stale_processor) [] =
     Inr get_empty_branch_data \<and>
   union_result \<noteq> get_empty_branch_data"
proof -
  have 1: "get_sales_by_branch_data demo_processor union_db 0 0 (mk_date 2024 5 1)
      (mk_date 2024 5 2) = Inr (union_result, stale_processor)"
    using demo_cache_empty
    by (simp add: get_sales_by_branch_data_def branch_sales_body_def Let_def execute_query_def
        execute_query_body_def union_db_def stale_processor_def demo_processor_def
        init_processor_def union_row_result mk_date_def)
  have 2: "cache_timeout stale_processor * 1000000 \<le> 86400000000 - 0"
    by (simp add: stale_processor_def demo_processor_def init_processor_def)
  have v: "is_cache_valid stale_processor 86400000000
      (branch_sales_key (mk_date 2024 5 1) (mk_date 2024 5 2))"
    by (simp add: is_cache_valid_def stale_processor_def demo_processor_def init_processor_def
        timedelta_seconds_def)
  have 3: "get_sales_by_branch_data stale_processor empty_db 86400000000 86400000000
     (mk_date 2024 5 1) (mk_date 2024 5 2) = Inr (union_result, stale_processor)"
    using v by (simp add: get_sales_by_branch_data_def stale_processor_def Let_def)
  have 4: "process_branch_sales_data (product_categories stale_processor) [] =
     Inr get_empty_branch_data"
    by (simp add: process_branch_sales_data_def)
  show ?thesis
    by (intro conjI) (rule 1 2 3 4 union_result_not_empty)+
qed

subsection \<open>The monthly aggregation\<close>

lemma monthly_loop_aggregate_months:
  "\<forall>m\<in>set ms. m \<le> 12 \<Longrightarrow>
   monthly_loop cats db y ey ms bd = aggregate_months cats db y ms bd"
proof (induction ms arbitrary: bd)
  case Nil
  then show ?case by simp
next
  case (Cons m ms)
  then have m: "\<not> 12 < m" and ms: "\<forall>m\<in>set ms. m \<le> 12" by auto
  show ?case
    using m Cons.IH [OF ms]
    by (simp split: sum.splits prod.splits)
qed

lemma monthly_miss:
  assumes "\<not> is_cache_valid self now (monthly_sales_key s e')" "month e' \<le> 12"
  shows "get_monthly_sales_by_branch_data self db now now_store s e' =
     (case aggregate_months (product_categories self) db (year s) [month s..<month e' + 1]
              get_empty_branch_data of
        Inl ex \<Rightarrow> Inr (get_empty_branch_data, self)
      | Inr result \<Rightarrow>
          Inr (result,
               self\<lparr>data_cache := (data_cache self)(monthly_sales_key s e' \<mapsto> result),
                    last_cache_update :=
                      (last_cache_update self)(monthly_sales_key s e' \<mapsto> now_store)\<rparr>))"
proof -
  have "\<forall>m\<in>set [month s..<month e' + 1]. m \<le> 12"
    using assms(2) by auto
  from monthly_loop_aggregate_months [OF this] assms(1) show ?thesis
    by (simp add: get_monthly_sales_by_branch_data_def monthly_sales_body_def Let_def
        split: sum.splits)
qed

lemma may_bounds: "month_bounds 2024 5 = Inr (mk_date 2024 5 1, mk_date 2024 5 31)"
  by (simp add: month_bounds_def date_new_def valid_date_def mk_date_def days_in_month_def
      minus_one_day_def)

lemma may_months:
  "aggregate_months get_fallback_categories union_db 2024
     [month (mk_date 2024 5 1)..<month (mk_date 2025 5 31) + 1] get_empty_branch_data =
   Inr union_result"
proof -
  have u: "[month (mk_date 2024 5 1)..<month (mk_date 2025 5 31) + 1] = [5]"
    by (simp add: mk_date_def upt_rec)
  have p: "aggregate_rows get_fallback_categories get_empty_branch_data [union_row] =
      Inr union_result"
    using union_row_result by (simp add: process_branch_sales_data_def)
  show ?thesis
    unfolding u
    by (simp add: may_bounds get_monthly_data_def execute_query_def execute_query_body_def
        union_db_def aggregate_monthly_data_def p del: aggregate_rows.simps)
qed

lemma digits2_inj:
  fixes a b :: nat
  assumes "a < 100" "b < 100" "a div 10 mod 10 = b div 10 mod 10" "a mod 10 = b mod 10"
  shows "a = b"
proof -
  from assms(1,2) have "a div 10 < 10" "b div 10 < 10" by simp_all
  with assms(3) have "a div 10 = b div 10" by simp
  with assms(4) show "a = b" by (metis div_mult_mod_eq)
qed

lemma digits4_inj:
  fixes a b :: nat
  assumes "a < 10000" "b < 10000" "a div 1000 mod 10 = b div 1000 mod 10"
    "a div 100 mod 10 = b div 100 mod 10" "a div 10 mod 10 = b div 10 mod 10"
    "a mod 10 = b mod 10"
  shows "a = b"
proof -
  from assms(1,2) have "a div 1000 < 10" "b div 1000 < 10" by simp_all
  with assms(3) have e1: "a div 1000 = b div 1000" by simp
  have "a div 100 div 10 = a div 1000" "b div 100 div 10 = b div 1000"
    by (simp_all add: div_mult2_eq [symmetric])
  with e1 assms(4) have e2: "a div 100 = b div 100" by (metis div_mult_mod_eq)
  have "a div 10 div 10 = a div 100" "b div 10 div 10 = b div 100"
    by (simp_all add: div_mult2_eq [symmetric])
  with e2 assms(5) have e3: "a div 10 = b div 10" by (metis div_mult_mod_eq)
  with assms(6) show "a = b" by (metis div_mult_mod_eq)
qed

lemma digit_char_eq: "digit_char a = digit_char b \<longleftrightarrow> a mod 10 = b mod 10"
proof -
  have "take_bit 8 (48 + a mod 10) = 48 + a mod 10" "take_bit 8 (48 + b mod 10) = 48 + b mod 10"
    by (rule take_bit_nat_eq_self, simp)+
  then show ?thesis
    unfolding digit_char_def by (simp add: char_of_eq_iff)
qed

lemma pad2_inj: "a < 100 \<Longrightarrow> b < 100 \<Longrightarrow> pad2 a = pad2 b \<Longrightarrow> a = b"
  unfolding pad2_def by (simp add: digit_char_eq digits2_inj)

lemma pad4_inj: "a < 10000 \<Longrightarrow> b < 10000 \<Longrightarrow> pad4 a = pad4 b \<Longrightarrow> a = b"
  unfolding pad4_def by (simp add: digit_char_eq digits4_inj)

lemma length_date_str: "length (date_str d) = 10"
  by (simp add: date_str_def pad4_def pad2_def)

lemma days_in_month_le: "days_in_month y m \<le> 31"
  by (simp add: days_in_month_def)

lemma date_str_inj:
  assumes "valid_date a" "valid_date b" "date_str a = date_str b"
  shows "a = b"
proof -
  from assms(1,2) have r: "year a < 10000" "year b < 10000" "month a < 100" "month b < 100"
    "day a < 100" "day b < 100"
    using days_in_month_le [of "year a" "month a"] days_in_month_le [of "year b" "month b"]
    by (auto simp: valid_date_def)
  have l: "length (pad4 (year a)) = length (pad4 (year b))"
     "length (pad2 (month a)) = length (pad2 (month b))"
    by (simp_all add: pad4_def pad2_def)
  from assms(3) l have "pad4 (year a) = pad4 (year b)" "pad2 (month a) = pad2 (month b)"
    "pad2 (day a) = pad2 (day b)"
    by (simp_all add: date_str_def)
  with r have "year a = year b" "month a = month b" "day a = day b"
    by (auto dest: pad4_inj pad2_inj)
  then show ?thesis by simp
qed

lemma monthly_key_inj:
  assumes "valid_date s" "valid_date e" "valid_date s'" "valid_date e'"
    and "monthly_sales_key s e = monthly_sales_key s' e'"
  shows "s = s' \<and> e = e'"
proof -
  from assms(5) have "date_str s @ ''_'' @ date_str e = date_str s' @ ''_'' @ date_str e'"
    by (simp add: monthly_sales_key_def)
  then have "date_str s = date_str s'" "date_str e = date_str e'"
    by (simp_all add: length_date_str)
  with assms(1-4) show ?thesis by (blast dest: date_str_inj)
qed

lemma branch_key_not_monthly: "branch_sales_key s e \<noteq> monthly_sales_key s' e'"
  by (simp add: branch_sales_key_def monthly_sales_key_def)


lemma inv_init: "backward_ranges_empty (init_processor rate cats)"
  by (simp add: backward_ranges_empty_def init_processor_def)

lemma inv_clear: "backward_ranges_empty (clear_cache self)"
  by (simp add: backward_ranges_empty_def clear_cache_def)

lemma inv_branch:
  assumes "backward_ranges_empty self"
    and "get_sales_by_branch_data self db now now_store s e = Inr (v, self')"
  shows "backward_ranges_empty self'"
proof -
  from assms(2) have
    "self' = self \<or>
     self' = self\<lparr>data_cache := (data_cache self)(branch_sales_key s e \<mapsto> v),
                   last_cache_update := (last_cache_update self)(branch_sales_key s e \<mapsto> now_store)\<rparr>"
    by (auto simp: get_sales_by_branch_data_def branch_sales_body_def Let_def
        split: if_splits option.splits sum.splits)
  with assms(1) show ?thesis
    by (auto simp: backward_ranges_empty_def branch_key_not_monthly [symmetric])
qed

lemma inv_monthly:
  assumes "backward_ranges_empty self" "valid_date s" "valid_date e"
    and "get_monthly_sales_by_branch_data self db now now_store s e = Inr (v, self')"
  shows "backward_ranges_empty self'"
proof -
  from assms(4) have
    "self' = self \<or>
     (monthly_loop (product_categories self) db (year s) (year e) [month s..<month e + 1]
        get_empty_branch_data = Inr v \<and>
      self' = self\<lparr>data_cache := (data_cache self)(monthly_sales_key s e \<mapsto> v),
                   last_cache_update := (last_cache_update self)(monthly_sales_key s e \<mapsto> now_store)\<rparr>)"
    by (auto simp: get_monthly_sales_by_branch_data_def monthly_sales_body_def Let_def
        split: if_splits option.splits sum.splits)
  then show ?thesis
  proof
    assume "self' = self"
    with assms(1) show ?thesis by simp
  next
    assume u: "monthly_loop (product_categories self) db (year s) (year e)
        [month s..<month e + 1] get_empty_branch_data = Inr v \<and>
      self' = self\<lparr>data_cache := (data_cache self)(monthly_sales_key s e \<mapsto> v),
                   last_cache_update := (last_cache_update self)(monthly_sales_key s e \<mapsto> now_store)\<rparr>"
    show ?thesis
      unfolding backward_ranges_empty_def
    proof (intro allI impI)
      fix s' e'
      assume v: "valid_date s'" "valid_date e'" and m: "month e' < month s'"
      show "case data_cache self' (monthly_sales_key s' e') of None \<Rightarrow> True
            | Some v \<Rightarrow> v = get_empty_branch_data"
      proof (cases "monthly_sales_key s' e' = monthly_sales_key s e")
        case True
        with monthly_key_inj [OF v assms(2,3)] have "s' = s" "e' = e" by simp_all
        with m u have "v = get_empty_branch_data" by simp
        with u True show ?thesis by simp
      next
        case False
        with u assms(1) v m show ?thesis
          by (simp add: backward_ranges_empty_def)
      qed
    qed
  qed
qed

lemma reachable_backward_ranges_empty: "reachable self \<Longrightarrow> backward_ranges_empty self"
proof (induction rule: reachable.induct)
  case (init rate cats)
  show ?case by (rule inv_init)
next
  case (branch_sales self s e db now now_store v self')
  then show ?case by (blast intro: inv_branch)
next
  case (monthly_sales self s e db now now_store v self')
  then show ?case by (blast intro: inv_monthly)
next
  case (clear self)
  show ?case by (rule inv_clear)
next
  case (update_exchange_rate self new_rate)
  show ?case by (rule inv_clear)
qed

lemma backward_range_all_zero:
  assumes "reachable self" "valid_date s" "valid_date e" "month e < month s"
  shows "\<exists>self'. get_monthly_sales_by_branch_data self db now now_store s e =
           Inr (get_empty_branch_data, self')"
proof (cases "is_cache_valid self now (monthly_sales_key s e)")
  case True
  then obtain v where v: "data_cache self (monthly_sales_key s e) = Some v"
    by (auto simp: is_cache_valid_def split: option.splits)
  from reachable_backward_ranges_empty [OF assms(1)] assms(2-4)
  have "case data_cache self (monthly_sales_key s e) of None \<Rightarrow> True
        | Some v \<Rightarrow> v = get_empty_branch_data"
    unfolding backward_ranges_empty_def by blast
  with v have "v = get_empty_branch_data" by simp
  with True v show ?thesis
    by (simp add: get_monthly_sales_by_branch_data_def)
next
  case False
  with assms(4) show ?thesis
    by (simp add: get_monthly_sales_by_branch_data_def monthly_sales_body_def Let_def)
qed

text \<open>
  Claim C9: for every date range whose end month is before its start month,
  \<open>get_monthly_sales_by_branch_data\<close> returns the all-zero branch structure, on every
  processor a program can reach; when it computes, it queries no month and stores that
  structure. In general, when it computes, its result is the aggregation of the months
  numbered from the start month to the end month, all taken in the start year: the end year
  does not enter.
\<close>

theorem monthly_sales_months_of_start_year:
  "(reachable self \<and> valid_date s \<and> valid_date e' \<and> month e' < month s \<longrightarrow>
      (\<exists>self'. get_monthly_sales_by_branch_data self db now now_store s e' =
         Inr (get_empty_branch_data, self'))) \<and>
   (month e' < month s \<and> \<not> is_cache_valid self now (monthly_sales_key s e') \<longrightarrow>
      get_monthly_sales_by_branch_data self db now now_store s e' =
        Inr (get_empty_branch_data,
             self\<lparr>data_cache :=
                    (data_cache self)(monthly_sales_key s e' \<mapsto> get_empty_branch_data),
                  last_cache_update :=
                    (last_cache_update self)(monthly_sales_key s e' \<mapsto> now_store)\<rparr>)) \<and>
   (month e' \<le> 12 \<and> \<not> is_cache_valid self now (monthly_sales_key s e') \<longrightarrow>
      get_monthly_sales_by_branch_data self db now now_store s e' =
        (case aggregate_months (product_categories self) db (year s) [month s..<month e' + 1]
                 get_empty_branch_data of
           Inl ex \<Rightarrow> Inr (get_empty_branch_data, self)
         | Inr result \<Rightarrow>
             Inr (result,
                  self\<lparr>data_cache := (data_cache self)(monthly_sales_key s e' \<mapsto> result),
                       last_cache_update :=
                         (last_cache_update self)(monthly_sales_key s e' \<mapsto> now_store)\<rparr>)))"
proof (intro conjI impI)
  assume "reachable self \<and> valid_date s \<and> valid_date e' \<and> month e' < month s"
  then show "\<exists>self'. get_monthly_sales_by_branch_data self db now now_store s e' =
         Inr (get_empty_branch_data, self')"
    using backward_range_all_zero by blast
next
  assume "month e' < month s \<and> \<not> is_cache_valid self now (monthly_sales_key s e')"
  then show "get_monthly_sales_by_branch_data self db now now_store s e' =
        Inr (get_empty_branch_data,
             self\<lparr>data_cache :=
                    (data_cache self)(monthly_sales_key s e' \<mapsto> get_empty_branch_data),
                  last_cache_update :=
                    (last_cache_update self)(monthly_sales_key s e' \<mapsto> now_store)\<rparr>)"
    by (simp add: get_monthly_sales_by_branch_data_def monthly_sales_body_def Let_def)
next
  assume "month e' \<le> 12 \<and> \<not> is_cache_valid self now (monthly_sales_key s e')"
  then show "get_monthly_sales_by_branch_data self db now now_store s e' =
        (case aggregate_months (product_categories self) db (year s) [month s..<month e' + 1]
                 get_empty_branch_data of
           Inl ex \<Rightarrow> Inr (get_empty_branch_data, self)
         | Inr result \<Rightarrow>
             Inr (result,
                  self\<lparr>data_cache := (data_cache self)(monthly_sales_key s e' \<mapsto> result),
                       last_cache_update :=
                         (last_cache_update self)(monthly_sales_key s e' \<mapsto> now_store)\<rparr>))"
    using monthly_miss by blast
qed

theorem monthly_sales_months_of_start_year_witness:
  "reachable demo_processor \<and> valid_date (mk_date 2024 11 15) \<and>
   valid_date (mk_date 2025 2 10) \<and>
   month (mk_date 2025 2 10) < month (mk_date 2024 11 15) \<and>
   (\<exists>self'. get_monthly_sales_by_branch_data demo_processor union_db 0 0
       (mk_date 2024 11 15) (mk_date 2025 2 10) = Inr (get_empty_branch_data, self')) \<and>
   \<not> is_cache_valid demo_processor 0
       (monthly_sales_key (mk_date 2024 11 15) (mk_date 2025 2 10)) \<and>
   get_monthly_sales_by_branch_data demo_processor union_db 0 0 (mk_date 2024 11 15)
       (mk_date 2025 2 10) =
     Inr (get_empty_branch_data,
          demo_processor\<lparr>data_cache :=
              (data_cache demo_processor)
                (monthly_sales_key (mk_date 2024 11 15) (mk_date 2025 2 10) \<mapsto>
                   get_empty_branch_data),
            last_cache_update :=
              (last_cache_update demo_processor)
                (monthly_sales_key (mk_date 2024 11 15) (mk_date 2025 2 10) \<mapsto> 0)\<rparr>) \<and>
   month (mk_date 2025 5 31) \<le> 12 \<and>
   \<not> is_cache_valid demo_processor 0
       (monthly_sales_key (mk_date 2024 5 1) (mk_date 2025 5 31)) \<and>
   get_monthly_sales_by_branch_data demo_processor union_db 0 0 (mk_date 2024 5 1)
       (mk_date 2025 5 31) =
     Inr (union_result,
          demo_processor\<lparr>data_cache :=
              (data_cache demo_processor)
                (monthly_sales_key (mk_date 2024 5 1) (mk_date 2025 5 31) \<mapsto> union_result),
            last_cache_update :=
              (last_cache_update demo_processor)
                (monthly_sales_key (mk_date 2024 5 1) (mk_date 2025 5 31) \<mapsto> 0)\<rparr>)"
proof -
  have r: "reachable demo_processor"
    unfolding demo_processor_def by (rule reachable.init)
  have v: "valid_date (mk_date 2024 11 15)" "valid_date (mk_date 2025 2 10)"
    by (simp_all add: valid_date_def mk_date_def days_in_month_def)
  have m: "month (mk_date 2025 2 10) < month (mk_date 2024 11 15)"
    by (simp add: mk_date_def)
  have c1: "\<not> is_cache_valid demo_processor 0
       (monthly_sales_key (mk_date 2024 11 15) (mk_date 2025 2 10))"
    by (rule demo_cache_empty)
  have m2: "month (mk_date 2025 5 31) \<le> 12"
    by (simp add: mk_date_def)
  have c2: "\<not> is_cache_valid demo_processor 0
       (monthly_sales_key (mk_date 2024 5 1) (mk_date 2025 5 31))"
    by (rule demo_cache_empty)
  have y: "year (mk_date 2024 5 1) = 2024"
      "product_categories demo_processor = get_fallback_categories"
    by (simp_all add: mk_date_def demo_processor_def init_processor_def)
  note t1 = monthly_sales_months_of_start_year [of demo_processor "mk_date 2024 11 15"
      "mk_date 2025 2 10" union_db 0 0]
  note t2 = monthly_sales_months_of_start_year [of demo_processor "mk_date 2024 5 1"
      "mk_date 2025 5 31" union_db 0 0]
  from t1 r v m have 0: "\<exists>self'. get_monthly_sales_by_branch_data demo_processor union_db 0 0
       (mk_date 2024 11 15) (mk_date 2025 2 10) = Inr (get_empty_branch_data, self')"
    by blast
  from t1 m c1 have 1: "get_monthly_sales_by_branch_data demo_processor union_db 0 0
       (mk_date 2024 11 15) (mk_date 2025 2 10) =
     Inr (get_empty_branch_data,
          demo_processor\<lparr>data_cache :=
              (data_cache demo_processor)
                (monthly_sales_key (mk_date 2024 11 15) (mk_date 2025 2 10) \<mapsto>
                   get_empty_branch_data),
            last_cache_update :=
              (last_cache_update demo_processor)
                (monthly_sales_key (mk_date 2024 11 15) (mk_date 2025 2 10) \<mapsto> 0)\<rparr>)"
    by blast
  from t2 m2 c2 have "get_monthly_sales_by_branch_data demo_processor union_db 0 0
       (mk_date 2024 5 1) (mk_date 2025 5 31) =
     (case aggregate_months (product_categories demo_processor) union_db
             (year (mk_date 2024 5 1))
             [month (mk_date 2024 5 1)..<month (mk_date 2025 5 31) + 1]
             get_empty_branch_data of
        Inl ex \<Rightarrow> Inr (get_empty_branch_data, demo_processor)
      | Inr result \<Rightarrow>
          Inr (result,
               demo_processor\<lparr>data_cache :=
                   (data_cache demo_processor)
                     (monthly_sales_key (mk_date 2024 5 1) (mk_date 2025 5 31) \<mapsto> result),
                 last_cache_update :=
                   (last_cache_update demo_processor)
                     (monthly_sales_key (mk_date 2024 5 1) (mk_date 2025 5 31) \<mapsto> 0)\<rparr>))"
    by blast
  then have 2: "get_monthly_sales_by_branch_data demo_processor union_db 0 0
       (mk_date 2024 5 1) (mk_date 2025 5 31) =
     Inr (union_result,
          demo_processor\<lparr>data_cache :=
              (data_cache demo_processor)
                (monthly_sales_key (mk_date 2024 5 1) (mk_date 2025 5 31) \<mapsto> union_result),
            last_cache_update :=
              (last_cache_update demo_processor)
                (monthly_sales_key (mk_date 2024 5 1) (mk_date 2025 5 31) \<mapsto> 0)\<rparr>)"
    by (simp only: y may_months sum.case)
  show ?thesis
    by (intro conjI) (rule r v m 0 c1 1 m2 c2 2)+
qed

end
